theory Spec2Isabelle
  imports Complex_Main
begin

section \<open>Numbers\<close>

text \<open>
  A JavaScript number is an IEEE 754 double. A finite double is modelled by its
  rational value, next to the two infinities and NaN; the sign of zero is not kept
  (no operation below divides or prints a zero). Every arithmetic operation computes
  the exact result and rounds it to the nearest double, ties to even.
\<close>

datatype number = Num rat | PosInf | NegInf | NaN

text \<open>\<open>bits n\<close> is the length of the binary numeral of a positive integer.\<close>

function bits :: "int \<Rightarrow> int" where
  "bits n = (if n \<le> 0 then 0 else 1 + bits (n div 2))"
  by pat_completeness auto
termination
  by (relation "measure nat") auto

declare bits.simps [simp del]

definition pow2 :: "int \<Rightarrow> rat" where
  "pow2 k = (if 0 \<le> k then 2 ^ nat k else 1 / 2 ^ nat (- k))"

text \<open>The binary exponent of a positive rational: \<open>2 ^ e \<le> a < 2 ^ (e + 1)\<close>.\<close>

definition exponent :: "rat \<Rightarrow> int" where
  "exponent a =
     (let (p, q) = quotient_of a;
          d = bits p - bits q
      in if pow2 d \<le> a then d else d - 1)"

definition round_half_even :: "rat \<Rightarrow> int" where
  "round_half_even y =
     (let f = \<lfloor>y\<rfloor>; r = y - of_int f
      in if r < 1 / 2 then f
         else if 1 / 2 < r then f + 1
         else if even f then f else f + 1)"

text \<open>
  Rounding to binary64: 53 significant bits, the spacing of the subnormal numbers
  below \<open>2 ^ - 1022\<close>, and an infinity when the rounded value reaches \<open>2 ^ 1024\<close> (its
  significand has then reached \<open>2 ^ 53\<close> at exponent 1023, or the exponent is larger).
\<close>

definition round64 :: "rat \<Rightarrow> number" where
  "round64 x =
     (if x = 0 then Num 0
      else
        (let a = \<bar>x\<bar>;
             e = max (exponent a) (- 1022);
             quantum = pow2 (e - 52);
             significand = round_half_even (a / quantum);
             e' = (if significand = 2 ^ 53 then e + 1 else e)
         in if 1024 \<le> e' then (if 0 < x then PosInf else NegInf)
            else Num (if 0 < x then of_int significand * quantum
                      else - (of_int significand * quantum))))"

fun js_neg :: "number \<Rightarrow> number" where
  "js_neg (Num a) = Num (- a)"
| "js_neg PosInf = NegInf"
| "js_neg NegInf = PosInf"
| "js_neg NaN = NaN"

fun js_add :: "number \<Rightarrow> number \<Rightarrow> number" where
  "js_add NaN y = NaN"
| "js_add x NaN = NaN"
| "js_add PosInf NegInf = NaN"
| "js_add NegInf PosInf = NaN"
| "js_add PosInf y = PosInf"
| "js_add x PosInf = PosInf"
| "js_add NegInf y = NegInf"
| "js_add x NegInf = NegInf"
| "js_add (Num a) (Num b) = round64 (a + b)"

definition js_sub :: "number \<Rightarrow> number \<Rightarrow> number" where
  "js_sub x y = js_add x (js_neg y)"

text \<open>The sign of a number that is not NaN: \<open>-1\<close>, 0 or 1.\<close>

fun js_sign :: "number \<Rightarrow> int" where
  "js_sign (Num a) = (if 0 < a then 1 else if a < 0 then - 1 else 0)"
| "js_sign PosInf = 1"
| "js_sign NegInf = - 1"
| "js_sign NaN = 0"

fun js_mul :: "number \<Rightarrow> number \<Rightarrow> number" where
  "js_mul NaN y = NaN"
| "js_mul x NaN = NaN"
| "js_mul (Num a) (Num b) = round64 (a * b)"
| "js_mul x y =
     (if js_sign x * js_sign y = 0 then NaN
      else if 0 < js_sign x * js_sign y then PosInf else NegInf)"

fun js_abs :: "number \<Rightarrow> number" where
  "js_abs (Num a) = Num \<bar>a\<bar>"
| "js_abs PosInf = PosInf"
| "js_abs NegInf = PosInf"
| "js_abs NaN = NaN"

text \<open>\<open>x > y\<close>: false as soon as one side is NaN.\<close>

fun js_gt :: "number \<Rightarrow> number \<Rightarrow> bool" where
  "js_gt NaN y = False"
| "js_gt x NaN = False"
| "js_gt (Num a) (Num b) = (b < a)"
| "js_gt PosInf PosInf = False"
| "js_gt PosInf y = True"
| "js_gt x PosInf = False"
| "js_gt NegInf y = False"
| "js_gt x NegInf = True"

definition js_lt :: "number \<Rightarrow> number \<Rightarrow> bool" where
  "js_lt x y = js_gt y x"

text \<open>\<open>x >= y\<close>.\<close>

definition js_ge :: "number \<Rightarrow> number \<Rightarrow> bool" where
  "js_ge x y = (js_gt x y \<or> (x = y \<and> x \<noteq> NaN))"

text \<open>
  \<open>Math.round\<close>: the integer nearest to the argument, the larger one of two that are
  equally near. The result is exact: a double with a fractional part is below
  \<open>2 ^ 52\<close>.
\<close>

fun Math_round :: "number \<Rightarrow> number" where
  "Math_round (Num a) = Num (of_int \<lfloor>a + 1 / 2\<rfloor>)"
| "Math_round x = x"

definition js_of_int :: "int \<Rightarrow> number" where
  "js_of_int i = round64 (of_int i)"

section \<open>Strings\<close>

text \<open>
  A string is a list of code units below 256. \<open>show_int\<close> is the decimal numeral of
  an integer, as a template literal prints it.
\<close>

fun digits :: "nat \<Rightarrow> string" where
  "digits n = (if n < 10 then [char_of (48 + n)] else digits (n div 10) @ [char_of (48 + n mod 10)])"

declare digits.simps [simp del]

definition show_int :: "int \<Rightarrow> string" where
  "show_int i = (if i < 0 then CHR ''-'' # digits (nat (- i)) else digits (nat i))"

fun join :: "string \<Rightarrow> string list \<Rightarrow> string" where
  "join sep [] = []"
| "join sep [x] = x"
| "join sep (x # y # ys) = x @ sep @ join sep (y # ys)"

text \<open>White space: tab, line feed, vertical tab, form feed, carriage return, space, no-break space.\<close>

definition is_whitespace :: "char \<Rightarrow> bool" where
  "is_whitespace c = (of_char c \<in> {9, 10, 11, 12, 13, 32, 160 :: nat})"

definition trim :: "string \<Rightarrow> string" where
  "trim s = rev (dropWhile is_whitespace (rev (dropWhile is_whitespace s)))"

definition toLowerCase :: "string \<Rightarrow> string" where
  "toLowerCase s =
     map (\<lambda>c. let k = of_char c :: nat
               in if (65 \<le> k \<and> k \<le> 90) \<or> (192 \<le> k \<and> k \<le> 222 \<and> k \<noteq> 215)
                  then char_of (k + 32) else c) s"

text \<open>\<open>s.slice(-4)\<close> and \<open>s.padStart(4, "0")\<close>.\<close>

definition slice_last4 :: "string \<Rightarrow> string" where
  "slice_last4 s = drop (length s - 4) s"

definition padStart4 :: "string \<Rightarrow> string" where
  "padStart4 s = replicate (4 - length s) (CHR ''0'') @ s"

text \<open>
  \<open>parseInt\<close> without a radix: leading white space and one sign are skipped, a prefix
  \<open>0x\<close> selects radix 16, and the longest prefix of digits is read; \<open>None\<close> is NaN.
\<close>

definition digit_value :: "nat \<Rightarrow> char \<Rightarrow> nat option" where
  "digit_value radix c =
     (let k = of_char c :: nat;
          v = (if 48 \<le> k \<and> k \<le> 57 then Some (k - 48)
               else if 97 \<le> k \<and> k \<le> 122 then Some (k - 87)
               else if 65 \<le> k \<and> k \<le> 90 then Some (k - 55)
               else None)
      in case v of None \<Rightarrow> None | Some d \<Rightarrow> if d < radix then Some d else None)"

fun parse_digits :: "nat \<Rightarrow> string \<Rightarrow> nat option \<Rightarrow> nat option" where
  "parse_digits radix [] acc = acc"
| "parse_digits radix (c # cs) acc =
     (case digit_value radix c of
        None \<Rightarrow> acc
      | Some d \<Rightarrow>
          parse_digits radix cs (Some (radix * (case acc of None \<Rightarrow> 0 | Some a \<Rightarrow> a) + d)))"

definition parseInt :: "string \<Rightarrow> int option" where
  "parseInt s =
     (let s1 = dropWhile is_whitespace s;
          negative = (take 1 s1 = ''-'');
          s2 = (if take 1 s1 = ''+'' \<or> take 1 s1 = ''-'' then drop 1 s1 else s1);
          hex = (take 2 s2 = ''0x'' \<or> take 2 s2 = ''0X'');
          s3 = (if hex then drop 2 s2 else s2)
      in map_option (\<lambda>n. if negative then - int n else int n)
           (parse_digits (if hex then 16 else 10) s3 None))"

text \<open>The order of strings in a sort: code unit by code unit, a prefix first.\<close>

fun string_less :: "string \<Rightarrow> string \<Rightarrow> bool" where
  "string_less [] [] = False"
| "string_less [] (y # ys) = True"
| "string_less (x # xs) [] = False"
| "string_less (x # xs) (y # ys) =
     ((of_char x :: nat) < of_char y \<or> (x = y \<and> string_less xs ys))"

fun greatest :: "string list \<Rightarrow> string option" where
  "greatest [] = None"
| "greatest (x # xs) =
     (case greatest xs of
        None \<Rightarrow> Some x
      | Some y \<Rightarrow> if string_less x y then Some y else Some x)"

section \<open>Data model\<close>

text \<open>
  The controllers work on three document collections (products, carts, orders) through
  an object-document mapper. A document is a record of the paths its schema declares,
  with a prefix per schema (\<open>p_\<close> product, \<open>ci_\<close> cart line, \<open>oi_\<close> order line, \<open>o_\<close>
  order, \<open>a_\<close> shipping address), since one field name cannot be shared by two
  records. Quantities and timestamps (milliseconds) are integers, prices and totals
  are numbers. Every controller is a function from the store before the request to a
  response and the store after it.

  A property that a controller sets on a loaded document without the schema declaring
  its path (\<open>paymentTransactionId\<close>, \<open>refundReason\<close> and \<open>refundedAt\<close> of an order) lives
  on that object only: the mapper neither writes it on \<open>save\<close> nor finds it on a
  document it loads. Such a property is therefore no field of the record; where the
  request reads it back, the controller's definition says what it reads.
\<close>

type_synonym objectId = nat

text \<open>
  Modelled from the spec: \<open>middleware/errorHandler.js\<close> (the class \<open>AppError\<close> and the
  wrapper \<open>catchAsync\<close>) is not among the sources. \<open>AppError message statusCode\<close> is the
  typed business error a controller hands to \<open>next\<close>; \<open>JsError\<close> is a plain \<open>Error\<close>
  (or a \<open>TypeError\<close>) raised below a controller, and \<open>ValidationError path\<close> is
  the rejection of a document by a validator declared in a schema; \<open>catchAsync\<close> forwards
  both to the same handler, so all three are results of the request.
\<close>

datatype failure =
    AppError string nat
  | JsError string
  | ValidationError string

record product =
  p_name :: string
  p_price :: number
  p_quantity :: int
  p_status :: string

record cart_item =
  ci_product :: objectId
  ci_quantity :: int

datatype order_status =
  Pending | Confirmed | Processing | Shipped | Delivered | Cancelled | Refunded

datatype payment_status =
  PaymentPending | Paid | Failed | PaymentRefunded

record address =
  a_firstName :: string
  a_lastName :: string
  a_email :: string
  a_phone :: string
  a_street :: string
  a_city :: string
  a_state :: string
  a_zipCode :: string

record order_item =
  oi_product :: objectId
  oi_quantity :: int
  oi_price :: number
  oi_total :: number

record order =
  o_orderNumber :: "string option"
  o_user :: objectId
  o_items :: "order_item list"
  o_shippingAddress :: address
  o_status :: order_status
  o_paymentStatus :: payment_status
  o_paymentMethod :: string
  o_subtotal :: number
  o_shippingCost :: number
  o_tax :: number
  o_total :: number
  o_notes :: string
  o_createdAt :: int
  o_deliveredAt :: "int option"

text \<open>
  The cart collection has a unique index on \<open>user\<close>, so it is keyed by the user id; a
  stored cart is its list of lines. The order collection is the list of its documents
  with their \<open>_id\<close>, in insertion order, and \<open>orders\<close> looks a document up by its id.
\<close>

record store =
  products :: "objectId \<rightharpoonup> product"
  carts :: "objectId \<rightharpoonup> cart_item list"
  order_docs :: "(objectId \<times> order) list"

definition orders :: "store \<Rightarrow> objectId \<rightharpoonup> order" where
  "orders st = map_of (order_docs st)"

text \<open>
  What a request reads from outside the store: the clock (\<open>new Date()\<close>, \<open>Date.now()\<close>)
  in milliseconds and the eight digits of its UTC date (\<open>toISOString\<close> up to the day,
  without the dashes), the draw of \<open>Math.random()\<close>, the id that \<open>new Order\<close> generates,
  and the verdict of the field validators that \<open>OrderSchema\<close> declares (\<open>required\<close>,
  \<open>min\<close>, \<open>enum\<close>, \<open>match\<close>, \<open>maxlength\<close>), which the mapper runs on a document before
  the schema's own \<open>pre('save')\<close> hooks.
\<close>

record env =
  now :: int
  dateStr :: string
  random :: number
  new_id :: objectId
  order_validators :: "order \<Rightarrow> bool"

section \<open>Product schema\<close>

definition ProductSchema_status_enum :: "string list" where
  "ProductSchema_status_enum = [''active'', ''revoked'', ''pending'', ''draft'']"

text \<open>
  The validators \<open>ProductSchema\<close> declares on the four modelled paths, in declaration
  order: \<open>name\<close> (as the \<open>trim\<close> setter leaves it) required with at most 200
  characters, \<open>price\<close> and \<open>quantity\<close> at least 0, \<open>status\<close> one of the enumerated
  strings.
\<close>

definition ProductSchema_validate :: "product \<Rightarrow> failure option" where
  "ProductSchema_validate p =
     (if p_name p = [] \<or> length (p_name p) > 200 then Some (ValidationError ''name'')
      else if \<not> js_ge (p_price p) (Num 0) then Some (ValidationError ''price'')
      else if p_quantity p < 0 then Some (ValidationError ''quantity'')
      else if p_status p \<notin> set ProductSchema_status_enum then Some (ValidationError ''status'')
      else None)"

definition Product_save :: "objectId \<Rightarrow> product \<Rightarrow> store \<Rightarrow> failure + store" where
  "Product_save pid p st =
     (case ProductSchema_validate p of
        Some e \<Rightarrow> Inl e
      | None \<Rightarrow> Inr (st\<lparr>products := (products st)(pid \<mapsto> p)\<rparr>))"

section \<open>Cart\<close>

text \<open>\<open>CartItemSchema\<close>: \<open>quantity\<close> has \<open>min 1\<close> and \<open>max 100\<close>.\<close>

definition CartItemSchema_validate :: "cart_item \<Rightarrow> bool" where
  "CartItemSchema_validate it = (1 \<le> ci_quantity it \<and> ci_quantity it \<le> 100)"

definition Cart_save :: "objectId \<Rightarrow> cart_item list \<Rightarrow> store \<Rightarrow> failure + store" where
  "Cart_save user cart st =
     (if list_all CartItemSchema_validate cart
      then Inr (st\<lparr>carts := (carts st)(user \<mapsto> cart)\<rparr>)
      else Inl (ValidationError ''items.quantity''))"

text \<open>
  The value of \<open>item.product\<close> on a cart in memory: the id the line stores, or, after
  \<open>populate\<close>, the product document with that id, or null when no product has it.
\<close>

datatype product_ref =
    Ref objectId
  | Populated objectId product
  | Missing objectId

fun ref_id :: "product_ref \<Rightarrow> objectId" where
  "ref_id (Ref i) = i"
| "ref_id (Populated i p) = i"
| "ref_id (Missing i) = i"

record loaded_item =
  l_product :: product_ref
  l_quantity :: int

definition populate_cart :: "store \<Rightarrow> cart_item list \<Rightarrow> loaded_item list" where
  "populate_cart st cart =
     map (\<lambda>it. \<lparr>l_product = (case products st (ci_product it) of
                                None \<Rightarrow> Missing (ci_product it)
                              | Some p \<Rightarrow> Populated (ci_product it) p),
                 l_quantity = ci_quantity it\<rparr>) cart"

definition stored_cart :: "loaded_item list \<Rightarrow> cart_item list" where
  "stored_cart cart = map (\<lambda>it. \<lparr>ci_product = ref_id (l_product it), ci_quantity = l_quantity it\<rparr>) cart"

text \<open>
  \<open>CartSchema.statics.getOrCreate\<close>: the user's cart with \<open>items.product\<close> populated;
  an absent cart is created empty and saved.
\<close>

definition getOrCreate :: "store \<Rightarrow> objectId \<Rightarrow> loaded_item list \<times> store" where
  "getOrCreate st user =
     (case carts st user of
        Some cart \<Rightarrow> (populate_cart st cart, st)
      | None \<Rightarrow> ([], st\<lparr>carts := (carts st)(user \<mapsto> [])\<rparr>))"

text \<open>
  \<open>item.product.toString() === productId.toString()\<close>. An id prints as itself. A
  populated product is a document, and a document prints as the inspection of its
  object, which is the text of no id. On null the call raises a \<open>TypeError\<close>.
\<close>

fun toString_equals :: "product_ref \<Rightarrow> objectId \<Rightarrow> failure + bool" where
  "toString_equals (Ref i) productId = Inr (i = productId)"
| "toString_equals (Populated i p) productId = Inr False"
| "toString_equals (Missing i) productId = Inl (JsError ''TypeError'')"

text \<open>\<open>items.find(item => item.product.toString() === productId.toString())\<close>.\<close>

fun find_item :: "loaded_item list \<Rightarrow> objectId \<Rightarrow> failure + loaded_item option" where
  "find_item [] productId = Inr None"
| "find_item (it # rest) productId =
     (case toString_equals (l_product it) productId of
        Inl e \<Rightarrow> Inl e
      | Inr True \<Rightarrow> Inr (Some it)
      | Inr False \<Rightarrow> find_item rest productId)"

text \<open>
  \<open>CartSchema.methods.addItem\<close>: the line that \<open>find\<close> returns gets the quantity added,
  and without such a line a new one is pushed; then the cart is saved.
\<close>

fun add_quantity :: "loaded_item list \<Rightarrow> objectId \<Rightarrow> int \<Rightarrow> failure + loaded_item list" where
  "add_quantity [] productId quantity = Inr [\<lparr>l_product = Ref productId, l_quantity = quantity\<rparr>]"
| "add_quantity (it # rest) productId quantity =
     (case toString_equals (l_product it) productId of
        Inl e \<Rightarrow> Inl e
      | Inr True \<Rightarrow> Inr (it\<lparr>l_quantity := l_quantity it + quantity\<rparr> # rest)
      | Inr False \<Rightarrow>
          (case add_quantity rest productId quantity of
             Inl e \<Rightarrow> Inl e
           | Inr rest' \<Rightarrow> Inr (it # rest')))"

definition addItem ::
  "objectId \<Rightarrow> loaded_item list \<Rightarrow> objectId \<Rightarrow> int \<Rightarrow> store
   \<Rightarrow> failure + (cart_item list \<times> store)" where
  "addItem user cart productId quantity st =
     (case add_quantity cart productId quantity of
        Inl e \<Rightarrow> Inl e
      | Inr cart' \<Rightarrow>
          (case Cart_save user (stored_cart cart') st of
             Inl e \<Rightarrow> Inl e
           | Inr st' \<Rightarrow> Inr (stored_cart cart', st')))"

text \<open>\<open>Product.findOne({_id, status: 'active', quantity: {$gt: 0}})\<close>.\<close>

definition findActiveInStock :: "store \<Rightarrow> objectId \<Rightarrow> product option" where
  "findActiveInStock st productId =
     (case products st productId of
        None \<Rightarrow> None
      | Some p \<Rightarrow> if p_status p = ''active'' \<and> p_quantity p > 0 then Some p else None)"

text \<open>
  The totals of the response: the cart is populated again and \<open>reduce\<close> sums the line
  prices from 0; reading the price of a line whose product document does not exist
  raises a \<open>TypeError\<close>.
\<close>

fun cart_totalPrice :: "store \<Rightarrow> cart_item list \<Rightarrow> number \<Rightarrow> number option" where
  "cart_totalPrice st [] acc = Some acc"
| "cart_totalPrice st (it # rest) acc =
     (case products st (ci_product it) of
        None \<Rightarrow> None
      | Some p \<Rightarrow>
          cart_totalPrice st rest
            (js_add acc (js_mul (p_price p) (js_of_int (ci_quantity it)))))"

record cart_response =
  cr_items :: "cart_item list"
  cr_totalItems :: int
  cr_totalPrice :: number

text \<open>The rejection of a request for more than the stock holds.\<close>

definition out_of_stock_error :: "int \<Rightarrow> int \<Rightarrow> failure" where
  "out_of_stock_error available inCart =
     AppError (''Only '' @ show_int available @ '' items available. You have ''
               @ show_int inCart @ '' in cart.'') 400"

text \<open>\<open>const { productId, quantity = 1 } = req.body\<close>: an absent quantity is 1.\<close>

definition request_quantity :: "int option \<Rightarrow> int" where
  "request_quantity quantity_opt = (case quantity_opt of None \<Rightarrow> 1 | Some q \<Rightarrow> q)"

definition addToCart ::
  "store \<Rightarrow> objectId \<Rightarrow> objectId option \<Rightarrow> int option \<Rightarrow> (failure + cart_response) \<times> store" where
  "addToCart st user productId_opt quantity_opt =
     (let quantity = request_quantity quantity_opt in
      case productId_opt of
        None \<Rightarrow> (Inl (AppError ''Product ID is required'' 400), st)
      | Some productId \<Rightarrow>
          if quantity < 1 \<or> quantity > 100
          then (Inl (AppError ''Quantity must be between 1 and 100'' 400), st)
          else
            (case findActiveInStock st productId of
               None \<Rightarrow> (Inl (AppError ''Product not found or out of stock'' 404), st)
             | Some product \<Rightarrow>
                 (let (cart, st1) = getOrCreate st user in
                  case find_item cart productId of
                    Inl e \<Rightarrow> (Inl e, st1)
                  | Inr existingItem \<Rightarrow>
                      (let currentQuantity =
                             (case existingItem of Some it \<Rightarrow> l_quantity it | None \<Rightarrow> 0);
                           newTotalQuantity = currentQuantity + quantity
                       in if newTotalQuantity > p_quantity product
                          then (Inl (out_of_stock_error (p_quantity product) currentQuantity), st1)
                          else
                            (case addItem user cart productId quantity st1 of
                               Inl e \<Rightarrow> (Inl e, st1)
                             | Inr (cart', st2) \<Rightarrow>
                                 (case cart_totalPrice st2 cart' (Num 0) of
                                    None \<Rightarrow> (Inl (JsError ''TypeError''), st2)
                                  | Some totalPrice \<Rightarrow>
                                      (Inr \<lparr>cr_items = cart',
                                            cr_totalItems = sum_list (map ci_quantity cart'),
                                            cr_totalPrice = totalPrice\<rparr>, st2)))))))"

section \<open>Orders\<close>

text \<open>
  \<open>OrderSchema.statics.generateOrderNumber\<close>: the greatest order number that starts
  with today's date is looked up, the number in its last four characters is
  incremented (1 when there is no such order), and printed after the date on at least
  four digits.
\<close>

definition orderNumbers :: "store \<Rightarrow> string list" where
  "orderNumbers st = List.map_filter (\<lambda>(oid, ord). o_orderNumber ord) (order_docs st)"

definition lastOrderNumber :: "env \<Rightarrow> store \<Rightarrow> string option" where
  "lastOrderNumber e st =
     greatest (filter (\<lambda>n. take (length (dateStr e)) n = dateStr e) (orderNumbers st))"

definition generateOrderNumber :: "env \<Rightarrow> store \<Rightarrow> string" where
  "generateOrderNumber e st =
     (let sequence = (case lastOrderNumber e st of
                        None \<Rightarrow> Some 1
                      | Some n \<Rightarrow> map_option (\<lambda>lastSequence. lastSequence + 1)
                                    (parseInt (slice_last4 n)))
      in dateStr e @ padStart4 (case sequence of None \<Rightarrow> ''NaN'' | Some k \<Rightarrow> show_int k))"

text \<open>
  The first \<open>pre('save')\<close> hook gives a new document without an order number the
  generated one. (It also sets \<open>estimatedDelivery\<close> and \<open>updatedAt\<close>, which no
  operation below reads and which are not fields of the record.)
\<close>

definition pre_save_orderNumber :: "env \<Rightarrow> store \<Rightarrow> bool \<Rightarrow> order \<Rightarrow> order" where
  "pre_save_orderNumber e st isNew ord =
     (if isNew \<and> (o_orderNumber ord = None \<or> o_orderNumber ord = Some [])
      then ord\<lparr>o_orderNumber := Some (generateOrderNumber e st)\<rparr>
      else ord)"

text \<open>
  The second hook validates the total: \<open>Math.abs(calculatedTotal - this.total) > 0.01\<close>
  is an error.
\<close>

definition total_difference :: "order \<Rightarrow> number" where
  "total_difference ord =
     (let calculatedTotal = js_add (js_add (o_subtotal ord) (o_shippingCost ord)) (o_tax ord)
      in js_abs (js_sub calculatedTotal (o_total ord)))"

definition pre_save_total :: "order \<Rightarrow> failure option" where
  "pre_save_total ord =
     (if js_gt (total_difference ord) (round64 (1 / 100))
      then Some (JsError ''Order total does not match calculated total'')
      else None)"

text \<open>The write: the document replaces the one with its id, or is appended.\<close>

fun upsert :: "objectId \<Rightarrow> order \<Rightarrow> (objectId \<times> order) list \<Rightarrow> (objectId \<times> order) list" where
  "upsert oid ord [] = [(oid, ord)]"
| "upsert oid ord ((k, v) # docs) =
     (if k = oid then (oid, ord) # docs else (k, v) # upsert oid ord docs)"

text \<open>
  \<open>order.save()\<close>: the declared field validators, then the two hooks, then the write.
  The insert of a new document fails on an id that is taken and on an order number
  that is taken (\<open>orderNumber\<close> has a unique index). The saved document comes back.
\<close>

definition Order_save ::
  "env \<Rightarrow> bool \<Rightarrow> objectId \<Rightarrow> order \<Rightarrow> store \<Rightarrow> failure + (order \<times> store)" where
  "Order_save e isNew oid ord st =
     (if \<not> order_validators e ord then Inl (ValidationError ''order'')
      else
        (let doc = pre_save_orderNumber e st isNew ord in
         case pre_save_total doc of
           Some err \<Rightarrow> Inl err
         | None \<Rightarrow>
             if isNew \<and> (oid \<in> fst ` set (order_docs st)
                          \<or> (case o_orderNumber doc of
                                None \<Rightarrow> False
                              | Some n \<Rightarrow> n \<in> set (orderNumbers st)))
             then Inl (JsError ''E11000 duplicate key'')
             else Inr (doc, st\<lparr>order_docs := upsert oid doc (order_docs st)\<rparr>)))"

text \<open>\<open>Order.findOne({_id, user})\<close>.\<close>

definition Order_findOne :: "store \<Rightarrow> objectId \<Rightarrow> objectId \<Rightarrow> order option" where
  "Order_findOne st oid user =
     (case orders st oid of
        None \<Rightarrow> None
      | Some ord \<Rightarrow> if o_user ord = user then Some ord else None)"

text \<open>\<open>Product.findByIdAndUpdate(id, {$inc: {quantity: d}})\<close>: no validator runs.\<close>

definition inc_quantity :: "objectId \<Rightarrow> int \<Rightarrow> (objectId \<rightharpoonup> product) \<Rightarrow> (objectId \<rightharpoonup> product)" where
  "inc_quantity pid d ps =
     (case ps pid of
        None \<Rightarrow> ps
      | Some p \<Rightarrow> ps(pid \<mapsto> p\<lparr>p_quantity := p_quantity p + d\<rparr>))"

subsection \<open>createOrder\<close>

definition address_complete :: "address \<Rightarrow> bool" where
  "address_complete a =
     (a_firstName a \<noteq> [] \<and> a_lastName a \<noteq> [] \<and> a_street a \<noteq> [] \<and> a_city a \<noteq> []
      \<and> a_state a \<noteq> [] \<and> a_zipCode a \<noteq> [] \<and> a_phone a \<noteq> [] \<and> a_email a \<noteq> [])"

text \<open>
  A populated cart line: the product id, the product document (or null when the
  reference no longer resolves) and the line's quantity.
\<close>

type_synonym populated_item = "objectId \<times> product option \<times> int"

definition populate :: "store \<Rightarrow> cart_item list \<Rightarrow> populated_item list" where
  "populate st cart = map (\<lambda>it. (ci_product it, products st (ci_product it), ci_quantity it)) cart"

text \<open>The loop that collects \<open>unavailableProducts\<close>; \<open>acc\<close> is the array pushed to.\<close>

fun unavailable_loop :: "populated_item list \<Rightarrow> string list \<Rightarrow> string list" where
  "unavailable_loop [] acc = acc"
| "unavailable_loop ((pid, None, q) # rest) acc =
     unavailable_loop rest (acc @ [''Unknown product''])"
| "unavailable_loop ((pid, Some p, q) # rest) acc =
     (if p_status p \<noteq> ''active''
      then unavailable_loop rest (acc @ [if p_name p = [] then ''Unknown product'' else p_name p])
      else if p_quantity p < q
      then unavailable_loop rest
             (acc @ [p_name p @ '' (only '' @ show_int (p_quantity p) @ '' available)''])
      else unavailable_loop rest acc)"

text \<open>
  The lines as the code after the check reads them (\<open>item.product.price\<close>,
  \<open>item.product._id\<close>): reading a field of a null product raises a \<open>TypeError\<close>.
\<close>

fun resolve :: "populated_item list \<Rightarrow> (objectId \<times> product \<times> int) list option" where
  "resolve [] = Some []"
| "resolve ((pid, None, q) # rest) = None"
| "resolve ((pid, Some p, q) # rest) = map_option ((#) (pid, p, q)) (resolve rest)"

definition subtotal_of :: "(objectId \<times> product \<times> int) list \<Rightarrow> number" where
  "subtotal_of lines =
     foldl (\<lambda>total (pid, p, q). js_add total (js_mul (p_price p) (js_of_int q))) (Num 0) lines"

definition order_items_of :: "(objectId \<times> product \<times> int) list \<Rightarrow> order_item list" where
  "order_items_of lines =
     map (\<lambda>(pid, p, q). \<lparr>oi_product = pid, oi_quantity = q, oi_price = p_price p,
                          oi_total = js_mul (p_price p) (js_of_int q)\<rparr>) lines"

fun reduce_quantities ::
  "(objectId \<times> product \<times> int) list \<Rightarrow> (objectId \<rightharpoonup> product) \<Rightarrow> (objectId \<rightharpoonup> product)" where
  "reduce_quantities [] ps = ps"
| "reduce_quantities ((pid, p, q) # rest) ps = reduce_quantities rest (inc_quantity pid (- q) ps)"

text \<open>
  The setters of \<open>ShippingAddressSchema\<close>: every string is trimmed, the email is also
  put in lower case.
\<close>

definition address_setters :: "address \<Rightarrow> address" where
  "address_setters a =
     \<lparr>a_firstName = trim (a_firstName a),
      a_lastName = trim (a_lastName a),
      a_email = trim (toLowerCase (a_email a)),
      a_phone = trim (a_phone a),
      a_street = trim (a_street a),
      a_city = trim (a_city a),
      a_state = trim (a_state a),
      a_zipCode = trim (a_zipCode a)\<rparr>"

text \<open>
  The totals and the document that \<open>new Order\<close> builds: subtotal by \<open>reduce\<close> over the
  lines, free shipping above 5000, tax \<open>Math.round(subtotal * 0.05)\<close>; the schema's
  setters trim the address and the notes.
\<close>

definition new_order ::
  "env \<Rightarrow> objectId \<Rightarrow> address \<Rightarrow> string \<Rightarrow> string \<Rightarrow> (objectId \<times> product \<times> int) list
   \<Rightarrow> order" where
  "new_order e user a paymentMethod notes lines =
     (let subtotal = subtotal_of lines;
          shippingCost = (if js_gt subtotal (Num 5000) then Num 0 else Num 200);
          tax = Math_round (js_mul subtotal (round64 (5 / 100)));
          total = js_add (js_add subtotal shippingCost) tax
      in \<lparr>o_orderNumber = None,
          o_user = user,
          o_items = order_items_of lines,
          o_shippingAddress = address_setters a,
          o_status = Pending,
          o_paymentStatus =
            (if paymentMethod = ''cash_on_delivery'' then PaymentPending else PaymentPending),
          o_paymentMethod = paymentMethod,
          o_subtotal = subtotal,
          o_shippingCost = shippingCost,
          o_tax = tax,
          o_total = total,
          o_notes = trim notes,
          o_createdAt = now e,
          o_deliveredAt = None\<rparr>)"

text \<open>
  \<open>const { shippingAddress, paymentMethod = 'cash_on_delivery', notes = '' } = req.body\<close>.
\<close>

definition request_paymentMethod :: "string option \<Rightarrow> string" where
  "request_paymentMethod paymentMethod_opt =
     (case paymentMethod_opt of None \<Rightarrow> ''cash_on_delivery'' | Some m \<Rightarrow> m)"

definition request_notes :: "string option \<Rightarrow> string" where
  "request_notes notes_opt = (case notes_opt of None \<Rightarrow> [] | Some n \<Rightarrow> n)"

definition unavailable_error :: "string list \<Rightarrow> failure" where
  "unavailable_error unavailableProducts =
     AppError (''Some products are no longer available: '' @ join '', '' unavailableProducts) 400"

definition createOrder ::
  "env \<Rightarrow> store \<Rightarrow> objectId \<Rightarrow> address option \<Rightarrow> string option \<Rightarrow> string option
   \<Rightarrow> (failure + order) \<times> store" where
  "createOrder e st user shippingAddress paymentMethod_opt notes_opt =
     (let paymentMethod = request_paymentMethod paymentMethod_opt;
          notes = request_notes notes_opt
      in
      case shippingAddress of
        None \<Rightarrow> (Inl (AppError ''Complete shipping address is required'' 400), st)
      | Some a \<Rightarrow>
          if \<not> address_complete a
          then (Inl (AppError ''Complete shipping address is required'' 400), st)
          else
            (case carts st user of
               None \<Rightarrow> (Inl (AppError ''Cart is empty'' 400), st)
             | Some cart \<Rightarrow>
                 if cart = [] then (Inl (AppError ''Cart is empty'' 400), st)
                 else
                   (let populated = populate st cart;
                        unavailableProducts = unavailable_loop populated []
                    in
                    if unavailableProducts \<noteq> []
                    then (Inl (unavailable_error unavailableProducts), st)
                    else
                      (case resolve populated of
                         None \<Rightarrow> (Inl (JsError ''TypeError''), st)
                       | Some lines \<Rightarrow>
                           (case Order_save e True (new_id e)
                                   (new_order e user a paymentMethod notes lines) st of
                              Inl err \<Rightarrow> (Inl err, st)
                            | Inr (ord, st1) \<Rightarrow>
                                (let st2 = st1\<lparr>products := reduce_quantities lines (products st1)\<rparr>
                                 in
                                 case Cart_save user [] st2 of
                                   Inl err \<Rightarrow> (Inl err, st2)
                                 | Inr st3 \<Rightarrow> (Inr ord, st3)))))))"

subsection \<open>cancelOrder\<close>

fun restore_quantities ::
  "order_item list \<Rightarrow> (objectId \<rightharpoonup> product) \<Rightarrow> (objectId \<rightharpoonup> product)" where
  "restore_quantities [] ps = ps"
| "restore_quantities (item # rest) ps =
     restore_quantities rest (inc_quantity (oi_product item) (oi_quantity item) ps)"

definition cancelOrder ::
  "env \<Rightarrow> store \<Rightarrow> objectId \<Rightarrow> objectId \<Rightarrow> (failure + order) \<times> store" where
  "cancelOrder e st user oid =
     (case Order_findOne st oid user of
        None \<Rightarrow> (Inl (AppError ''Order not found'' 404), st)
      | Some ord \<Rightarrow>
          if \<not> (o_status ord = Pending \<or> o_status ord = Confirmed)
          then (Inl (AppError ''Order cannot be cancelled at this stage'' 400), st)
          else
            (let st1 = st\<lparr>products := restore_quantities (o_items ord) (products st)\<rparr>
             in
             case Order_save e False oid
                    (ord\<lparr>o_status := Cancelled, o_paymentStatus := PaymentRefunded\<rparr>) st1 of
               Inl err \<Rightarrow> (Inl err, st1)
             | Inr (ord', st2) \<Rightarrow> (Inr ord', st2)))"

section \<open>Payments\<close>

record payment_details =
  pd_cardNumber :: string
  pd_cvv :: string

record payment_result =
  r_success :: bool
  r_transactionId :: "string option"
  r_message :: string

text \<open>\<open>paymentResult?.success\<close>: false while \<open>paymentResult\<close> is still undefined.\<close>

definition optional_success :: "payment_result option \<Rightarrow> bool" where
  "optional_success r = (case r of None \<Rightarrow> False | Some res \<Rightarrow> r_success res)"

text \<open>
  The \<open>switch\<close> on the payment method. In the \<open>credit_card\<close> case the object literal
  reads \<open>paymentResult\<close> while it is being computed, that is with the value the
  variable has before the assignment: \<open>let paymentResult;\<close> leaves it undefined.
\<close>

definition simulate ::
  "env \<Rightarrow> order \<Rightarrow> string \<Rightarrow> payment_details option \<Rightarrow> failure + payment_result" where
  "simulate e ord paymentMethod paymentDetails =
     (let paymentResult = (None :: payment_result option) in
      if paymentMethod = ''cash_on_delivery''
      then Inr \<lparr>r_success = True, r_transactionId = None,
                r_message = ''Payment will be collected on delivery''\<rparr>
      else if paymentMethod = ''credit_card''
      then
        (case paymentDetails of
           None \<Rightarrow> Inl (AppError ''Credit card details are required'' 400)
         | Some d \<Rightarrow>
             if pd_cardNumber d = [] \<or> pd_cvv d = []
             then Inl (AppError ''Credit card details are required'' 400)
             else Inr \<lparr>r_success = js_gt (random e) (round64 (1 / 10)),
                       r_transactionId =
                         (if optional_success paymentResult
                          then Some (''TXN_'' @ show_int (now e)) else None),
                       r_message =
                         (if optional_success paymentResult
                          then ''Payment processed successfully'' else ''Payment failed'')\<rparr>)
      else if paymentMethod = ''bank_transfer''
      then Inr \<lparr>r_success = True, r_transactionId = Some (''BANK_'' @ show_int (now e)),
                r_message = ''Bank transfer initiated. Please complete the transfer.''\<rparr>
      else if paymentMethod = ''wallet''
      then
        (let walletBalance = Num 10000 in
         if js_lt walletBalance (o_total ord)
         then Inl (AppError ''Insufficient wallet balance'' 400)
         else Inr \<lparr>r_success = True, r_transactionId = Some (''WALLET_'' @ show_int (now e)),
                   r_message = ''Payment processed from wallet''\<rparr>)
      else Inl (AppError ''Invalid payment method'' 400))"

text \<open>
  \<open>processPayment\<close>. On a successful result the order gets the payment status, the
  method and, from pending, the status confirmed, and is saved. The assignment
  \<open>order.paymentTransactionId = paymentResult.transactionId\<close> sets a property that
  \<open>OrderSchema\<close> does not declare: it stays on the object of this request and is not
  part of what is saved. The response takes the transaction id from the payment
  result.
\<close>

definition processPayment ::
  "env \<Rightarrow> store \<Rightarrow> objectId \<Rightarrow> objectId option \<Rightarrow> string option \<Rightarrow> payment_details option
   \<Rightarrow> (failure + payment_result) \<times> store" where
  "processPayment e st user orderId paymentMethod_opt paymentDetails =
     (case (orderId, paymentMethod_opt) of
        (Some oid, Some paymentMethod) \<Rightarrow>
          if paymentMethod = []
          then (Inl (AppError ''Order ID and payment method are required'' 400), st)
          else
            (case Order_findOne st oid user of
               None \<Rightarrow> (Inl (AppError ''Order not found'' 404), st)
             | Some ord \<Rightarrow>
                 if o_paymentStatus ord = Paid
                 then (Inl (AppError ''Order has already been paid'' 400), st)
                 else if o_status ord = Cancelled
                 then (Inl (AppError ''Cannot process payment for cancelled order'' 400), st)
                 else
                   (case simulate e ord paymentMethod paymentDetails of
                      Inl err \<Rightarrow> (Inl err, st)
                    | Inr paymentResult \<Rightarrow>
                        if r_success paymentResult
                        then
                          (case Order_save e False oid
                                  (ord\<lparr>o_paymentStatus := Paid,
                                       o_paymentMethod := paymentMethod,
                                       o_status := (if o_status ord = Pending then Confirmed
                                                    else o_status ord)\<rparr>) st of
                             Inl err \<Rightarrow> (Inl err, st)
                           | Inr (ord', st') \<Rightarrow> (Inr paymentResult, st'))
                        else (Inr paymentResult, st)))
      | _ \<Rightarrow> (Inl (AppError ''Order ID and payment method are required'' 400), st))"

text \<open>
  \<open>getPaymentStatus\<close> answers from the stored order. Its \<open>transactionId\<close> is
  \<open>order.paymentTransactionId\<close> of a document that has just been loaded, and a loaded
  document has the declared paths only: the property is undefined.
\<close>

record payment_status_response =
  ps_status :: payment_status
  ps_method :: string
  ps_transactionId :: "string option"
  ps_amount :: number
  ps_orderStatus :: order_status

definition getPaymentStatus ::
  "store \<Rightarrow> objectId \<Rightarrow> objectId \<Rightarrow> failure + payment_status_response" where
  "getPaymentStatus st user oid =
     (case Order_findOne st oid user of
        None \<Rightarrow> Inl (AppError ''Order not found'' 404)
      | Some ord \<Rightarrow>
          Inr \<lparr>ps_status = o_paymentStatus ord,
               ps_method = o_paymentMethod ord,
               ps_transactionId = None,
               ps_amount = o_total ord,
               ps_orderStatus = o_status ord\<rparr>)"

text \<open>
  \<open>processRefund\<close>. The refund deadline is seven days, in milliseconds, after
  \<open>deliveredAt\<close>, or after \<open>createdAt\<close> when the order has no delivery date. The order
  gets payment status and status refunded and is saved. \<open>order.refundReason\<close> and
  \<open>order.refundedAt\<close> are properties that \<open>OrderSchema\<close> does not declare: they are set
  on the object of this request, the response reads them from there, and they are not
  part of what is saved. The response's \<open>transactionId\<close> is
  \<open>order.paymentTransactionId\<close> of the loaded document: undefined.
\<close>

definition refundDeadline :: "order \<Rightarrow> int" where
  "refundDeadline ord =
     (let deliveryDate = (case o_deliveredAt ord of Some d \<Rightarrow> d | None \<Rightarrow> o_createdAt ord)
      in deliveryDate + 7 * 24 * 60 * 60 * 1000)"

record refund_response =
  rf_amount :: number
  rf_transactionId :: "string option"
  rf_refundedAt :: int
  rf_reason :: "string option"

definition processRefund ::
  "env \<Rightarrow> store \<Rightarrow> objectId \<Rightarrow> objectId \<Rightarrow> string option
   \<Rightarrow> (failure + refund_response) \<times> store" where
  "processRefund e st user oid reason =
     (case Order_findOne st oid user of
        None \<Rightarrow> (Inl (AppError ''Order not found'' 404), st)
      | Some ord \<Rightarrow>
          if o_paymentStatus ord \<noteq> Paid
          then (Inl (AppError ''Order has not been paid yet'' 400), st)
          else if o_status ord = Delivered \<and> now e > refundDeadline ord
          then (Inl (AppError ''Refund period has expired (7 days from delivery)'' 400), st)
          else
            (let refundReason = reason;
                 refundedAt = now e
             in
             case Order_save e False oid
                    (ord\<lparr>o_paymentStatus := PaymentRefunded, o_status := Refunded\<rparr>) st of
               Inl err \<Rightarrow> (Inl err, st)
             | Inr (ord', st') \<Rightarrow>
                 (Inr \<lparr>rf_amount = o_total ord',
                       rf_transactionId = None,
                       rf_refundedAt = refundedAt,
                       rf_reason = refundReason\<rparr>, st')))"

section \<open>Notions of the specification\<close>

text \<open>
  A cart line is unavailable when its product is missing, is not active, or has less
  on hand than the line asks for; \<open>unavailable_label\<close> is what the error message says
  about such a line.
\<close>

definition line_unavailable :: "store \<Rightarrow> cart_item \<Rightarrow> bool" where
  "line_unavailable st it =
     (case products st (ci_product it) of
        None \<Rightarrow> True
      | Some p \<Rightarrow> p_status p \<noteq> ''active'' \<or> p_quantity p < ci_quantity it)"

definition unavailable_label :: "store \<Rightarrow> cart_item \<Rightarrow> string" where
  "unavailable_label st it =
     (case products st (ci_product it) of
        None \<Rightarrow> ''Unknown product''
      | Some p \<Rightarrow>
          if p_status p \<noteq> ''active''
          then (if p_name p = [] then ''Unknown product'' else p_name p)
          else p_name p @ '' (only '' @ show_int (p_quantity p) @ '' available)'')"

text \<open>
  The price of a cart line at the catalog price, and the sum of the line prices of a
  cart in the order of its lines, both in the arithmetic of numbers.
\<close>

definition line_price :: "store \<Rightarrow> cart_item \<Rightarrow> number" where
  "line_price st it =
     (case products st (ci_product it) of
        None \<Rightarrow> NaN
      | Some p \<Rightarrow> js_mul (p_price p) (js_of_int (ci_quantity it)))"

fun js_sum :: "number \<Rightarrow> number list \<Rightarrow> number" where
  "js_sum acc [] = acc"
| "js_sum acc (x # xs) = js_sum (js_add acc x) xs"

definition cart_subtotal :: "store \<Rightarrow> cart_item list \<Rightarrow> number" where
  "cart_subtotal st cart = js_sum (Num 0) (map (line_price st) cart)"

text \<open>The quantity an order's lines hold of one product.\<close>

definition ordered_quantity :: "order_item list \<Rightarrow> objectId \<Rightarrow> int" where
  "ordered_quantity its pid = sum_list (map oi_quantity (filter (\<lambda>i. oi_product i = pid) its))"

text \<open>
  The doubles that the literals \<open>0.01\<close> and \<open>0.05\<close> denote, and the invariant of an
  order's totals as the save hook tests it: the difference it computes is not above
  \<open>0.01\<close>.
\<close>

definition double_0_01 :: rat where
  "double_0_01 = 5764607523034235 / 576460752303423488"

definition double_0_05 :: rat where
  "double_0_05 = 3602879701896397 / 72057594037927936"

definition totals_consistent :: "order \<Rightarrow> bool" where
  "totals_consistent ord = (\<not> js_gt (total_difference ord) (Num double_0_01))"

text \<open>A day in milliseconds, the unit of the clock.\<close>

definition day :: int where
  "day = 24 * 60 * 60 * 1000"

section \<open>Example data\<close>

definition tea :: product where
  "tea = \<lparr>p_name = ''Tea'', p_price = Num 500, p_quantity = 5, p_status = ''active''\<rparr>"

definition shop :: store where
  "shop = \<lparr>products = [7 \<mapsto> tea], carts = Map.empty, order_docs = []\<rparr>"

definition sold_out :: store where
  "sold_out = \<lparr>products = [7 \<mapsto> tea\<lparr>p_quantity := 0\<rparr>], carts = Map.empty, order_docs = []\<rparr>"

definition home :: address where
  "home = \<lparr>a_firstName = ''Ada'', a_lastName = ''Khan'', a_email = ''ada@example.com'',
           a_phone = ''0300'', a_street = ''1 Mall Road'', a_city = ''Lahore'',
           a_state = ''Punjab'', a_zipCode = ''54000''\<rparr>"

text \<open>
  A request at one second past the start of 1 January 1970, with a draw of 0.5, the
  fresh id 10, and field validators that accept every order.
\<close>

definition today :: env where
  "today = \<lparr>now = 1000, dateStr = ''19700101'', random = Num (1 / 2), new_id = 10,
            order_validators = (\<lambda>ord. True)\<rparr>"

text \<open>The cart of the specification's scenario: one line, quantity 2, price 500.\<close>

definition shop_with_cart :: store where
  "shop_with_cart = shop\<lparr>carts := [1 \<mapsto> [\<lparr>ci_product = 7, ci_quantity = 2\<rparr>]]\<rparr>"


text \<open>The order of that scenario, and the store after its checkout.\<close>

definition tea_order :: order where
  "tea_order =
     \<lparr>o_orderNumber = Some ''197001010001'',
      o_user = 1,
      o_items = [\<lparr>oi_product = 7, oi_quantity = 2, oi_price = Num 500, oi_total = Num 1000\<rparr>],
      o_shippingAddress = home,
      o_status = Pending,
      o_paymentStatus = PaymentPending,
      o_paymentMethod = ''cash_on_delivery'',
      o_subtotal = Num 1000,
      o_shippingCost = Num 200,
      o_tax = Num 50,
      o_total = Num 1250,
      o_notes = [],
      o_createdAt = 1000,
      o_deliveredAt = None\<rparr>"

definition shop_after :: store where
  "shop_after = \<lparr>products = [7 \<mapsto> tea\<lparr>p_quantity := 3\<rparr>], carts = [1 \<mapsto> []],
                  order_docs = [(10, tea_order)]\<rparr>"

definition shop_shipped :: store where
  "shop_shipped = shop_after\<lparr>order_docs := [(10, tea_order\<lparr>o_status := Shipped\<rparr>)]\<rparr>"

text \<open>The same order paid and delivered at time 1000.\<close>

definition delivered_order :: order where
  "delivered_order =
     tea_order\<lparr>o_status := Delivered, o_paymentStatus := Paid, o_deliveredAt := Some 1000\<rparr>"

definition shop_delivered :: store where
  "shop_delivered = shop_after\<lparr>order_docs := [(10, delivered_order)]\<rparr>"

definition card :: payment_details where
  "card = \<lparr>pd_cardNumber = ''4111111111111111'', pd_cvv = ''123''\<rparr>"

text \<open>
  Prices with a fractional part: a pen at 0.1 and ink at 3.3 (the doubles these
  literals denote), and a cart of one pen and three bottles of ink.
\<close>

definition pen :: product where
  "pen = \<lparr>p_name = ''Pen'', p_price = round64 (1 / 10), p_quantity = 10, p_status = ''active''\<rparr>"

definition ink :: product where
  "ink = \<lparr>p_name = ''Ink'', p_price = round64 (33 / 10), p_quantity = 10, p_status = ''active''\<rparr>"

definition stationer :: store where
  "stationer =
     \<lparr>products = [8 \<mapsto> pen, 9 \<mapsto> ink],
      carts = [1 \<mapsto> [\<lparr>ci_product = 8, ci_quantity = 1\<rparr>, \<lparr>ci_product = 9, ci_quantity = 3\<rparr>]],
      order_docs = []\<rparr>"

text \<open>
  An order whose three parts are the doubles of 0.1, 0.2 and 0 and whose total is the
  double of 0.29.
\<close>

definition cent_order :: order where
  "cent_order =
     tea_order\<lparr>o_subtotal := round64 (1 / 10), o_shippingCost := round64 (2 / 10),
               o_tax := Num 0, o_total := round64 (29 / 100)\<rparr>"

section \<open>Arithmetic of the examples\<close>

text \<open>
  The doubles of the literals, and the results that the arithmetic of doubles gives
  on the examples: \<open>0.1 + 0.2\<close> is above 0.3, \<open>0.1 * 1 + 3.3 * 3\<close> is below 10, and
  \<open>672.2 * 7 + 49.1 * 6\<close> is above 5000.
\<close>

lemma round64_0_01: "round64 (1 / 100) = Num double_0_01"
  unfolding double_0_01_def by code_simp

lemma round64_0_05: "round64 (5 / 100) = Num double_0_05" "round64 (1 / 20) = Num double_0_05"
  unfolding double_0_05_def by code_simp+

lemma double_0_01_bounds: "1 / 100 < double_0_01" "double_0_01 < 1 / 100 + 1 / 10 ^ 18"
  by (simp_all add: double_0_01_def)

lemma js_add_0_1_0_2:
  "js_add (round64 (1 / 10)) (round64 (2 / 10)) = Num (1351079888211149 / 4503599627370496)"
  by code_simp

lemma js_add_above_0_3:
  "round64 (3 / 10) = Num (5404319552844595 / 18014398509481984)"
  "js_gt (js_add (round64 (1 / 10)) (round64 (2 / 10))) (round64 (3 / 10))"
  by code_simp+

lemma js_subtotal_below_10:
  "js_add (js_mul (round64 (1 / 10)) (js_of_int 1)) (js_mul (round64 (33 / 10)) (js_of_int 3))
   = Num (5629499534213119 / 562949953421312)"
  "js_lt (js_add (js_mul (round64 (1 / 10)) (js_of_int 1)) (js_mul (round64 (33 / 10)) (js_of_int 3)))
     (Num 10)"
  by code_simp+

lemma js_subtotal_above_5000:
  "js_add (js_mul (round64 (6722 / 10)) (js_of_int 7)) (js_mul (round64 (491 / 10)) (js_of_int 6))
   = Num (5497558138880001 / 1099511627776)"
  "js_gt (js_add (js_mul (round64 (6722 / 10)) (js_of_int 7)) (js_mul (round64 (491 / 10)) (js_of_int 6)))
     (Num 5000)"
  by code_simp+

lemma Math_round_examples:
  "Math_round (Num (5 / 2)) = Num 3" "Math_round (Num (- 5 / 2)) = Num (- 2)"
  "Math_round (Num (249 / 100)) = Num 2" "Math_round (js_mul (Num 1010) (round64 (5 / 100))) = Num 51"
  by code_simp+

lemma show_int_small: "show_int 5 = ''5''" "show_int 0 = ''0''" "show_int 1000 = ''1000''"
  by code_simp+

section \<open>The cart: adding a product\<close>

text \<open>
  On a cart as \<open>getOrCreate\<close> returns it, \<open>find\<close> has no line to return: every line's
  product is a document (or null, and then the call raises).
\<close>

lemma find_item_populated:
  "find_item (populate_cart st cart) productId \<noteq> Inr (Some it)"
  by (induction cart) (auto simp: populate_cart_def split: option.splits)

lemma add_quantity_populated:
  assumes "\<forall>it \<in> set cart. products st (ci_product it) \<noteq> None"
  shows "add_quantity (populate_cart st cart) productId quantity
         = Inr (populate_cart st cart @ [\<lparr>l_product = Ref productId, l_quantity = quantity\<rparr>])"
  using assms by (induction cart) (auto simp: populate_cart_def split: option.splits)

text \<open>
  C5. The specification has \<open>addItem\<close> merge the quantity into the existing line and
  refuse a request once the cart's quantity plus the requested one exceeds the stock.
  The code looks for the existing line by comparing \<open>item.product.toString()\<close> with the
  id on a cart whose lines are populated, so it finds none. User 1 adds two units of
  product 7, of which five are on hand, and then four more: the second request
  (2 + 4 > 5) is accepted, and the cart gets a second line for the product instead of
  a larger first one.
\<close>

theorem addToCart_ignores_cart_quantity:
  "addToCart shop 1 (Some 7) (Some 2)
   = (Inr \<lparr>cr_items = [\<lparr>ci_product = 7, ci_quantity = 2\<rparr>],
           cr_totalItems = 2,
           cr_totalPrice = Num 1000\<rparr>,
      shop\<lparr>carts := [1 \<mapsto> [\<lparr>ci_product = 7, ci_quantity = 2\<rparr>]]\<rparr>)
   \<and> addToCart (shop\<lparr>carts := [1 \<mapsto> [\<lparr>ci_product = 7, ci_quantity = 2\<rparr>]]\<rparr>) 1 (Some 7) (Some 4)
   = (Inr \<lparr>cr_items = [\<lparr>ci_product = 7, ci_quantity = 2\<rparr>, \<lparr>ci_product = 7, ci_quantity = 4\<rparr>],
           cr_totalItems = 6,
           cr_totalPrice = Num 3000\<rparr>,
      shop\<lparr>carts := [1 \<mapsto> [\<lparr>ci_product = 7, ci_quantity = 2\<rparr>, \<lparr>ci_product = 7, ci_quantity = 4\<rparr>]]\<rparr>)"
proof -
  have price: "js_add (js_add (Num 0) (js_mul (Num 500) (js_of_int 2))) (js_mul (Num 500) (js_of_int 4))
               = Num 3000"
    "js_add (Num 0) (js_mul (Num 500) (js_of_int 2)) = Num 1000"
    "js_add (Num 1000) (js_mul (Num 500) (js_of_int 4)) = Num 3000"
    by code_simp+
  show ?thesis
    by (simp add: addToCart_def shop_def tea_def findActiveInStock_def getOrCreate_def Let_def
          populate_cart_def stored_cart_def addItem_def Cart_save_def CartItemSchema_validate_def
          request_quantity_def price)
qed

text \<open>
  C10: a request (with a quantity that passed the range check) for a product that is
  active with quantity on hand 0 is answered with status 404, \<open>Product not found or
  out of stock\<close>, and the store is unchanged; whatever the requested quantity, the
  answer is never the out-of-stock rejection, since the lookup itself asks for a
  quantity above 0.
\<close>

theorem addToCart_no_stock_is_not_found:
  assumes "products st productId = Some p" and "p_status p = ''active''" and "p_quantity p = 0"
  shows "(1 \<le> request_quantity quantity_opt \<and> request_quantity quantity_opt \<le> 100
            \<longrightarrow> addToCart st user (Some productId) quantity_opt
                = (Inl (AppError ''Product not found or out of stock'' 404), st))
         \<and> (\<forall>available inCart. fst (addToCart st user (Some productId) quantity_opt)
                \<noteq> Inl (out_of_stock_error available inCart))"
  using assms
  unfolding addToCart_def findActiveInStock_def out_of_stock_error_def Let_def
  by simp

theorem addToCart_no_stock_is_not_found_witness:
  "addToCart sold_out 2 (Some 7) None
     = (Inl (AppError ''Product not found or out of stock'' 404), sold_out)
   \<and> (\<forall>available inCart. fst (addToCart sold_out 2 (Some 7) None)
          \<noteq> Inl (out_of_stock_error available inCart))"
proof -
  have "products sold_out 7 = Some (tea\<lparr>p_quantity := 0\<rparr>)"
    and "p_status (tea\<lparr>p_quantity := 0\<rparr>) = ''active''"
    and "p_quantity (tea\<lparr>p_quantity := 0\<rparr>) = 0"
    by (simp_all add: sold_out_def tea_def)
  note inst = addToCart_no_stock_is_not_found [OF this, of None 2]
  have "1 \<le> request_quantity None \<and> request_quantity None \<le> 100"
    by (simp add: request_quantity_def)
  with inst show ?thesis by blast
qed

section \<open>Checkout\<close>

lemma unavailable_loop_acc:
  "unavailable_loop (populate st cart) acc
   = acc @ map (unavailable_label st) (filter (line_unavailable st) cart)"
proof (induction cart arbitrary: acc)
  case Nil
  then show ?case by (simp add: populate_def)
next
  case (Cons it cart)
  then show ?case
    by (cases "products st (ci_product it)")
       (simp_all add: populate_def line_unavailable_def unavailable_label_def)
qed

lemma unavailable_loop_empty:
  "unavailable_loop (populate st cart) [] = [] \<longleftrightarrow> (\<forall>it \<in> set cart. \<not> line_unavailable st it)"
  by (simp add: unavailable_loop_acc filter_empty_conv)



text \<open>The order collection after a write, and the save in terms of its conditions.\<close>

lemma map_of_upsert: "map_of (upsert oid ord docs) = (map_of docs)(oid \<mapsto> ord)"
  by (induction docs) auto

lemma orders_write:
  "orders (st\<lparr>order_docs := upsert oid ord (order_docs st)\<rparr>) = (orders st)(oid \<mapsto> ord)"
  by (simp add: orders_def map_of_upsert)

lemma id_taken: "oid \<in> fst ` set (order_docs st) \<longleftrightarrow> orders st oid \<noteq> None"
  by (simp add: orders_def map_of_eq_None_iff)

lemma orders_other_fields:
  "orders (st\<lparr>products := ps\<rparr>) = orders st"
  "orders (st\<lparr>carts := cs\<rparr>) = orders st"
  by (simp_all add: orders_def)

lemma total_difference_fields:
  "total_difference (ord\<lparr>o_orderNumber := n\<rparr>) = total_difference ord"
  "total_difference (ord\<lparr>o_status := s\<rparr>) = total_difference ord"
  "total_difference (ord\<lparr>o_paymentStatus := ps\<rparr>) = total_difference ord"
  "total_difference (ord\<lparr>o_paymentMethod := m\<rparr>) = total_difference ord"
  by (simp_all add: total_difference_def)

lemma pre_save_total_consistent:
  "pre_save_total ord = None \<longleftrightarrow> totals_consistent ord"
  by (simp add: pre_save_total_def totals_consistent_def round64_0_01)

lemma totals_consistent_orderNumber:
  "totals_consistent (pre_save_orderNumber e st isNew ord) = totals_consistent ord"
  by (simp add: totals_consistent_def pre_save_orderNumber_def total_difference_fields)

lemma Order_save_Inr:
  "Order_save e isNew oid ord st = Inr (doc, st')
   \<longleftrightarrow> order_validators e ord \<and> totals_consistent ord
       \<and> doc = pre_save_orderNumber e st isNew ord
       \<and> (isNew \<longrightarrow> orders st oid = None
                    \<and> (\<forall>n. o_orderNumber doc = Some n \<longrightarrow> n \<notin> set (orderNumbers st)))
       \<and> st' = st\<lparr>order_docs := upsert oid doc (order_docs st)\<rparr>"
proof (cases "pre_save_total (pre_save_orderNumber e st isNew ord)")
  case None
  then have "totals_consistent ord"
    by (simp add: pre_save_total_consistent totals_consistent_orderNumber)
  with None show ?thesis
    by (auto simp: Order_save_def Let_def id_taken split: option.splits)
next
  case (Some err)
  then have "\<not> totals_consistent ord"
    using pre_save_total_consistent [of "pre_save_orderNumber e st isNew ord"]
    by (simp add: totals_consistent_orderNumber)
  with Some show ?thesis
    by (simp add: Order_save_def Let_def)
qed

lemma Order_save_update:
  "Order_save e False oid ord st = Inr (doc, st')
   \<longleftrightarrow> order_validators e ord \<and> totals_consistent ord \<and> doc = ord
       \<and> st' = st\<lparr>order_docs := upsert oid ord (order_docs st)\<rparr>"
  by (auto simp: Order_save_Inr pre_save_orderNumber_def)

text \<open>
  The subtotal that \<open>reduce\<close> computes over the populated lines is the sum of the line
  prices of the cart, added in the order of the lines.
\<close>

lemma resolve_available:
  assumes "\<forall>it \<in> set cart. \<not> line_unavailable st it"
  shows "\<exists>lines. resolve (populate st cart) = Some lines
           \<and> (\<forall>acc. foldl (\<lambda>total (pid, p, q). js_add total (js_mul (p_price p) (js_of_int q)))
                      acc lines
                    = js_sum acc (map (line_price st) cart))"
  using assms
proof (induction cart)
  case Nil
  then show ?case by (simp add: populate_def)
next
  case (Cons it cart)
  then obtain lines where
    l: "resolve (populate st cart) = Some lines"
       "\<forall>acc. foldl (\<lambda>total (pid, p, q). js_add total (js_mul (p_price p) (js_of_int q))) acc lines
              = js_sum acc (map (line_price st) cart)"
    by auto
  from Cons.prems obtain p where p: "products st (ci_product it) = Some p"
    by (auto simp: line_unavailable_def split: option.splits)
  have "resolve (populate st (it # cart)) = Some ((ci_product it, p, ci_quantity it) # lines)"
    using l(1) p by (simp add: populate_def)
  moreover have "line_price st it = js_mul (p_price p) (js_of_int (ci_quantity it))"
    using p by (simp add: line_price_def)
  ultimately show ?case using l(2) by simp
qed

lemma createOrder_available:
  assumes "address_complete a" and "carts st user = Some cart" and "cart \<noteq> []"
      and "resolve (populate st cart) = Some lines"
      and "unavailable_loop (populate st cart) [] = []"
  shows "createOrder e st user (Some a) paymentMethod_opt notes_opt
         = (case Order_save e True (new_id e)
                   (new_order e user a (request_paymentMethod paymentMethod_opt)
                      (request_notes notes_opt) lines) st of
              Inl err \<Rightarrow> (Inl err, st)
            | Inr (ord, st1) \<Rightarrow>
                (Inr ord, st1\<lparr>products := reduce_quantities lines (products st1),
                              carts := (carts st1)(user \<mapsto> [])\<rparr>))"
  using assms
  by (simp add: createOrder_def Let_def Cart_save_def split: sum.splits prod.splits)

text \<open>
  The total of a new order is computed by the very additions the save hook repeats, so
  the difference the hook tests is 0, or NaN when the total is not finite.
\<close>

lemma js_sub_self: "js_abs (js_sub x x) = Num 0 \<or> js_abs (js_sub x x) = NaN"
  by (cases x) (simp_all add: js_sub_def round64_def)

lemma new_order_totals_consistent:
  "totals_consistent (new_order e user a paymentMethod notes lines)"
proof -
  let ?ord = "new_order e user a paymentMethod notes lines"
  have "total_difference ?ord = js_abs (js_sub (o_total ?ord) (o_total ?ord))"
    by (simp add: total_difference_def new_order_def Let_def)
  with js_sub_self [of "o_total ?ord"] show ?thesis
    by (auto simp: totals_consistent_def double_0_01_def)
qed

text \<open>
  C2: a checkout with a complete address and a non-empty cart whose lines are all
  available, on which the schema's field validators pass, whose fresh id is free and
  whose generated order number is not taken, creates and stores an order with
  \<^item> subtotal the sum over the cart lines of price times quantity,
  \<^item> shipping cost 0 when the subtotal is above 5000 and 200 otherwise,
  \<^item> tax the product of the subtotal and 0.05 rounded to the nearest integer, the
    larger one of two that are equally near,
  \<^item> total the sum of subtotal, shipping cost and tax,
  \<^item> status pending and payment status pending,

  every product and sum being the one of the arithmetic of doubles. For a cart of one
  line with quantity 2 and price 500 the four numbers are 1000, 200, 50 and 1250.
\<close>

theorem createOrder_totals:
  assumes "address_complete a" and "carts st user = Some cart" and "cart \<noteq> []"
      and "\<forall>it \<in> set cart. \<not> line_unavailable st it"
      and "\<forall>lines. resolve (populate st cart) = Some lines
             \<longrightarrow> order_validators e (new_order e user a (request_paymentMethod paymentMethod_opt)
                                       (request_notes notes_opt) lines)"
      and "orders st (new_id e) = None"
      and "generateOrderNumber e st \<notin> set (orderNumbers st)"
  shows "\<exists>ord st'. createOrder e st user (Some a) paymentMethod_opt notes_opt = (Inr ord, st')
           \<and> orders st' (new_id e) = Some ord
           \<and> o_subtotal ord = cart_subtotal st cart
           \<and> o_shippingCost ord = (if js_gt (o_subtotal ord) (Num 5000) then Num 0 else Num 200)
           \<and> o_tax ord = Math_round (js_mul (o_subtotal ord) (Num double_0_05))
           \<and> (\<forall>x. js_mul (o_subtotal ord) (Num double_0_05) = Num x
                \<longrightarrow> (\<exists>n :: int. o_tax ord = Num (of_int n)
                                  \<and> x - 1 / 2 < of_int n \<and> of_int n \<le> x + 1 / 2))
           \<and> o_total ord = js_add (js_add (o_subtotal ord) (o_shippingCost ord)) (o_tax ord)
           \<and> o_status ord = Pending \<and> o_paymentStatus ord = PaymentPending
           \<and> (\<forall>pid p. cart = [\<lparr>ci_product = pid, ci_quantity = 2\<rparr>]
                       \<and> products st pid = Some p \<and> p_price p = Num 500
                \<longrightarrow> o_subtotal ord = Num 1000 \<and> o_shippingCost ord = Num 200
                    \<and> o_tax ord = Num 50 \<and> o_total ord = Num 1250)"
proof -
  from resolve_available[OF assms(4)] obtain lines where
    l: "resolve (populate st cart) = Some lines"
       "\<forall>acc. foldl (\<lambda>total (pid, p, q). js_add total (js_mul (p_price p) (js_of_int q))) acc lines
              = js_sum acc (map (line_price st) cart)"
    by blast
  define new where
    "new = new_order e user a (request_paymentMethod paymentMethod_opt) (request_notes notes_opt) lines"
  define ord where "ord = new\<lparr>o_orderNumber := Some (generateOrderNumber e st)\<rparr>"
  have valid: "order_validators e new"
    using assms(5) l(1) by (simp add: new_def)
  have hook: "pre_save_orderNumber e st True new = ord"
    by (simp add: pre_save_orderNumber_def ord_def new_def new_order_def Let_def)
  have save: "Order_save e True (new_id e) new st
              = Inr (ord, st\<lparr>order_docs := upsert (new_id e) ord (order_docs st)\<rparr>)"
    using valid assms(6,7) new_order_totals_consistent [of e user a _ _ lines] hook
    by (simp add: Order_save_Inr new_def) (simp add: ord_def)
  have loop: "unavailable_loop (populate st cart) [] = []"
    using assms(4) by (simp add: unavailable_loop_empty)
  let ?st' = "st\<lparr>order_docs := upsert (new_id e) ord (order_docs st),
                  products := reduce_quantities lines (products st),
                  carts := (carts st)(user \<mapsto> [])\<rparr>"
  have run: "createOrder e st user (Some a) paymentMethod_opt notes_opt = (Inr ord, ?st')"
    using createOrder_available[OF assms(1,2,3) l(1) loop, of e paymentMethod_opt notes_opt] save
    by (simp add: new_def)
  have stored: "orders ?st' (new_id e) = Some ord"
    by (simp add: orders_def map_of_upsert)
  have sub: "o_subtotal ord = cart_subtotal st cart"
    using l(2) by (simp add: ord_def new_def new_order_def Let_def subtotal_of_def cart_subtotal_def)
  have fields:
       "o_shippingCost ord = (if js_gt (o_subtotal ord) (Num 5000) then Num 0 else Num 200)"
       "o_tax ord = Math_round (js_mul (o_subtotal ord) (Num double_0_05))"
       "o_total ord = js_add (js_add (o_subtotal ord) (o_shippingCost ord)) (o_tax ord)"
       "o_status ord = Pending" "o_paymentStatus ord = PaymentPending"
    by (simp_all add: ord_def new_def new_order_def Let_def round64_0_05)
  have rounded: "\<exists>n :: int. o_tax ord = Num (of_int n) \<and> x - 1 / 2 < of_int n \<and> of_int n \<le> x + 1 / 2"
    if "js_mul (o_subtotal ord) (Num double_0_05) = Num x" for x
  proof -
    have "o_tax ord = Num (of_int \<lfloor>x + 1 / 2\<rfloor>)"
      using that fields(2) by simp
    moreover have "x - 1 / 2 < of_int \<lfloor>x + 1 / 2\<rfloor>" "of_int \<lfloor>x + 1 / 2\<rfloor> \<le> x + 1 / 2"
      by linarith+
    ultimately show ?thesis by blast
  qed
  have scenario: "o_subtotal ord = Num 1000 \<and> o_shippingCost ord = Num 200
                  \<and> o_tax ord = Num 50 \<and> o_total ord = Num 1250"
    if "cart = [\<lparr>ci_product = pid, ci_quantity = 2\<rparr>]" "products st pid = Some p" "p_price p = Num 500"
    for pid p
  proof -
    have a: "js_add (Num 0) (js_mul (Num 500) (js_of_int 2)) = Num 1000"
      "Math_round (js_mul (Num 1000) (Num double_0_05)) = Num 50"
      "js_add (js_add (Num 1000) (Num 200)) (Num 50) = Num 1250"
      unfolding double_0_05_def by code_simp+
    have "o_subtotal ord = Num 1000"
      using that sub a(1) by (simp add: cart_subtotal_def line_price_def)
    then show ?thesis using fields a(2,3) by simp
  qed
  from run stored sub fields rounded scenario show ?thesis by blast
qed

text \<open>
  The scenario itself: the checkout of \<open>shop_with_cart\<close> answers with \<open>tea_order\<close>, which
  carries the first order number of the day, and leaves \<open>shop_after\<close>.
\<close>

lemma home_setters: "address_setters home = home" "trim [] = []"
  by code_simp+

lemma shop_checkout:
  "createOrder today shop_with_cart 1 (Some home) None None = (Inr tea_order, shop_after)"
proof -
  have n: "generateOrderNumber today shop_with_cart = ''197001010001''"
    by code_simp
  have new: "new_order today 1 home ''cash_on_delivery'' [] [(7, tea, 2)]
             = tea_order\<lparr>o_orderNumber := None\<rparr>"
    by code_simp
  have d: "total_difference (tea_order\<lparr>o_orderNumber := Some ''197001010001''\<rparr>) = Num 0"
    by code_simp
  have save: "Order_save today True 10 (tea_order\<lparr>o_orderNumber := None\<rparr>) shop_with_cart
              = Inr (tea_order, shop_with_cart\<lparr>order_docs := [(10, tea_order)]\<rparr>)"
    using n d
    by (simp add: Order_save_def pre_save_orderNumber_def pre_save_total_def round64_0_01
          double_0_01_def Let_def today_def orders_def orderNumbers_def shop_with_cart_def shop_def)
       (simp add: tea_order_def)
  have h: "address_complete home"
    "carts shop_with_cart 1 = Some [\<lparr>ci_product = 7, ci_quantity = 2\<rparr>]"
    "[\<lparr>ci_product = 7, ci_quantity = 2\<rparr>] \<noteq> []"
    "resolve (populate shop_with_cart [\<lparr>ci_product = 7, ci_quantity = 2\<rparr>]) = Some [(7, tea, 2)]"
    "unavailable_loop (populate shop_with_cart [\<lparr>ci_product = 7, ci_quantity = 2\<rparr>]) [] = []"
    by (simp_all add: address_complete_def home_def shop_with_cart_def shop_def tea_def populate_def)
  have r: "request_paymentMethod None = ''cash_on_delivery''" "request_notes None = []"
    "new_id today = 10"
    by (simp_all add: request_paymentMethod_def request_notes_def today_def)
  have "createOrder today shop_with_cart 1 (Some home) None None
        = (Inr tea_order,
           shop_with_cart\<lparr>order_docs := [(10, tea_order)],
             products := reduce_quantities [(7, tea, 2)]
                           (products (shop_with_cart\<lparr>order_docs := [(10, tea_order)]\<rparr>)),
             carts := (carts (shop_with_cart\<lparr>order_docs := [(10, tea_order)]\<rparr>))(1 \<mapsto> [])\<rparr>)"
    unfolding createOrder_available [OF h, of today None None] r new save by simp
  also have "shop_with_cart\<lparr>order_docs := [(10, tea_order)],
             products := reduce_quantities [(7, tea, 2)]
                           (products (shop_with_cart\<lparr>order_docs := [(10, tea_order)]\<rparr>)),
             carts := (carts (shop_with_cart\<lparr>order_docs := [(10, tea_order)]\<rparr>))(1 \<mapsto> [])\<rparr>
           = shop_after"
    by (simp add: shop_with_cart_def shop_def shop_after_def tea_def inc_quantity_def)
  finally show ?thesis .
qed

theorem createOrder_totals_witness:
  "(\<exists>ord st'. createOrder today shop_with_cart 1 (Some home) None None = (Inr ord, st')
       \<and> orders st' 10 = Some ord
       \<and> o_subtotal ord = Num 1000 \<and> o_shippingCost ord = Num 200
       \<and> o_tax ord = Num 50 \<and> o_total ord = Num 1250
       \<and> o_status ord = Pending \<and> o_paymentStatus ord = PaymentPending)
   \<and> (\<exists>ord st'. createOrder today stationer 1 (Some home) None None = (Inr ord, st')
       \<and> orders st' 10 = Some ord
       \<and> o_subtotal ord = Num (5629499534213119 / 562949953421312)
       \<and> o_shippingCost ord = Num 200 \<and> o_tax ord = Num 0 \<and> o_total ord = Num 210
       \<and> o_status ord = Pending \<and> o_paymentStatus ord = PaymentPending)"
proof -
  have h: "address_complete home"
    "carts shop_with_cart 1 = Some [\<lparr>ci_product = 7, ci_quantity = 2\<rparr>]"
    "[\<lparr>ci_product = 7, ci_quantity = 2\<rparr>] \<noteq> []"
    "\<forall>it \<in> set [\<lparr>ci_product = 7, ci_quantity = 2\<rparr>]. \<not> line_unavailable shop_with_cart it"
    "\<forall>lines. resolve (populate shop_with_cart [\<lparr>ci_product = 7, ci_quantity = 2\<rparr>]) = Some lines
       \<longrightarrow> order_validators today (new_order today 1 home (request_paymentMethod None)
                                     (request_notes None) lines)"
    "orders shop_with_cart (new_id today) = None"
    "generateOrderNumber today shop_with_cart \<notin> set (orderNumbers shop_with_cart)"
    by (simp_all add: address_complete_def home_def shop_with_cart_def shop_def tea_def
          line_unavailable_def today_def orders_def orderNumbers_def)
  have p: "products shop_with_cart 7 = Some tea" "p_price tea = Num 500" "new_id today = 10"
    by (simp_all add: shop_with_cart_def shop_def tea_def today_def)
  from createOrder_totals [OF h] p
  have first: "\<exists>ord st'. createOrder today shop_with_cart 1 (Some home) None None = (Inr ord, st')
       \<and> orders st' 10 = Some ord
       \<and> o_subtotal ord = Num 1000 \<and> o_shippingCost ord = Num 200
       \<and> o_tax ord = Num 50 \<and> o_total ord = Num 1250
       \<and> o_status ord = Pending \<and> o_paymentStatus ord = PaymentPending"
    by metis
  let ?cart = "[\<lparr>ci_product = 8, ci_quantity = 1\<rparr>, \<lparr>ci_product = 9, ci_quantity = 3\<rparr>]"
  have k: "address_complete home"
    "carts stationer 1 = Some ?cart"
    "?cart \<noteq> []"
    "\<forall>it \<in> set ?cart. \<not> line_unavailable stationer it"
    "\<forall>lines. resolve (populate stationer ?cart) = Some lines
       \<longrightarrow> order_validators today (new_order today 1 home (request_paymentMethod None)
                                     (request_notes None) lines)"
    "orders stationer (new_id today) = None"
    "generateOrderNumber today stationer \<notin> set (orderNumbers stationer)"
    by (simp_all add: address_complete_def home_def stationer_def pen_def ink_def
          line_unavailable_def today_def orders_def orderNumbers_def)
  have a: "cart_subtotal stationer ?cart = Num (5629499534213119 / 562949953421312)"
    "js_gt (Num (5629499534213119 / 562949953421312)) (Num 5000) = False"
    "Math_round (js_mul (Num (5629499534213119 / 562949953421312)) (Num double_0_05)) = Num 0"
    "js_add (js_add (Num (5629499534213119 / 562949953421312)) (Num 200)) (Num 0) = Num 210"
    unfolding double_0_05_def by code_simp+
  from createOrder_totals [OF k] obtain ord st' where
    o: "createOrder today stationer 1 (Some home) None None = (Inr ord, st')"
       "orders st' (new_id today) = Some ord"
       "o_subtotal ord = cart_subtotal stationer ?cart"
       "o_shippingCost ord = (if js_gt (o_subtotal ord) (Num 5000) then Num 0 else Num 200)"
       "o_tax ord = Math_round (js_mul (o_subtotal ord) (Num double_0_05))"
       "o_total ord = js_add (js_add (o_subtotal ord) (o_shippingCost ord)) (o_tax ord)"
       "o_status ord = Pending" "o_paymentStatus ord = PaymentPending"
    by blast
  have "o_subtotal ord = Num (5629499534213119 / 562949953421312)"
    using o(3) a(1) by simp
  moreover from this have "o_shippingCost ord = Num 200" "o_tax ord = Num 0"
    using o(4,5) a(2,3) by simp_all
  moreover from calculation have "o_total ord = Num 210"
    using o(6) a(4) by simp
  ultimately have second: "\<exists>ord st'. createOrder today stationer 1 (Some home) None None = (Inr ord, st')
       \<and> orders st' 10 = Some ord
       \<and> o_subtotal ord = Num (5629499534213119 / 562949953421312)
       \<and> o_shippingCost ord = Num 200 \<and> o_tax ord = Num 0 \<and> o_total ord = Num 210
       \<and> o_status ord = Pending \<and> o_paymentStatus ord = PaymentPending"
    using o(1,2,7,8) p(3) by auto
  from first second show ?thesis by blast
qed

section \<open>Saving an order\<close>

lemma Order_save_mismatch:
  assumes "js_gt (total_difference ord) (Num double_0_01)"
  shows "Order_save e isNew oid ord st
         = (if order_validators e ord
            then Inl (JsError ''Order total does not match calculated total'')
            else Inl (ValidationError ''order''))"
proof -
  have "pre_save_total (pre_save_orderNumber e st isNew ord)
        = Some (JsError ''Order total does not match calculated total'')"
    using assms
    by (simp add: pre_save_total_def round64_0_01 pre_save_orderNumber_def total_difference_fields)
  then show ?thesis
    by (simp add: Order_save_def Let_def)
qed

text \<open>
  C3: the save hook computes subtotal + shippingCost + tax and the absolute value of
  its difference from total, in the arithmetic of doubles, and compares it with the
  double of 0.01. Whenever a save goes through, that difference is not above the
  tolerance (when it is a finite number, it is at most the tolerance), the document
  is stored, and its four totals are the ones handed in. A save of an order whose
  difference is above the tolerance fails, with the error \<open>Order total does not match
  calculated total\<close> when the field validators accepted the order, and then nothing is
  written.
\<close>

theorem Order_save_total_invariant:
  "(Order_save e isNew oid ord st = Inr (doc, st')
      \<longrightarrow> \<not> js_gt (total_difference ord) (Num double_0_01)
          \<and> (\<forall>d. total_difference ord = Num d \<longrightarrow> d \<le> double_0_01)
          \<and> orders st' oid = Some doc
          \<and> o_subtotal doc = o_subtotal ord \<and> o_shippingCost doc = o_shippingCost ord
          \<and> o_tax doc = o_tax ord \<and> o_total doc = o_total ord)
   \<and> (js_gt (total_difference bad) (Num double_0_01)
      \<longrightarrow> (\<exists>err. Order_save e2 isNew2 oid2 bad st2 = Inl err)
          \<and> (order_validators e2 bad
               \<longrightarrow> Order_save e2 isNew2 oid2 bad st2
                   = Inl (JsError ''Order total does not match calculated total'')))"
proof (intro conjI impI)
  assume "Order_save e isNew oid ord st = Inr (doc, st')"
  then have s: "totals_consistent ord" "doc = pre_save_orderNumber e st isNew ord"
    "st' = st\<lparr>order_docs := upsert oid doc (order_docs st)\<rparr>"
    by (simp_all add: Order_save_Inr)
  from s(1) show "\<not> js_gt (total_difference ord) (Num double_0_01)"
    by (simp add: totals_consistent_def)
  from s(1) show "\<forall>d. total_difference ord = Num d \<longrightarrow> d \<le> double_0_01"
    by (auto simp: totals_consistent_def)
  from s(3) show "orders st' oid = Some doc"
    by (simp add: orders_write)
  from s(2) show "o_subtotal doc = o_subtotal ord" "o_shippingCost doc = o_shippingCost ord"
    "o_tax doc = o_tax ord" "o_total doc = o_total ord"
    by (simp_all add: pre_save_orderNumber_def)
next
  assume "js_gt (total_difference bad) (Num double_0_01)"
  then show "\<exists>err. Order_save e2 isNew2 oid2 bad st2 = Inl err"
    by (simp add: Order_save_mismatch)
next
  assume "js_gt (total_difference bad) (Num double_0_01)" and "order_validators e2 bad"
  then show "Order_save e2 isNew2 oid2 bad st2
             = Inl (JsError ''Order total does not match calculated total'')"
    by (simp add: Order_save_mismatch)
qed

lemma tea_order_difference: "total_difference tea_order = Num 0"
  by code_simp

lemma tea_order_consistent: "totals_consistent tea_order"
  by (simp add: totals_consistent_def tea_order_difference double_0_01_def)

lemma shop_first_save:
  "Order_save today True 10 (tea_order\<lparr>o_orderNumber := None\<rparr>) shop
   = Inr (tea_order, shop\<lparr>order_docs := [(10, tea_order)]\<rparr>)"
proof -
  have n: "generateOrderNumber today shop = ''197001010001''"
    by code_simp
  have doc: "tea_order = pre_save_orderNumber today shop True (tea_order\<lparr>o_orderNumber := None\<rparr>)"
    by (simp add: pre_save_orderNumber_def n) (simp add: tea_order_def)
  have "order_validators today (tea_order\<lparr>o_orderNumber := None\<rparr>)"
    "totals_consistent (tea_order\<lparr>o_orderNumber := None\<rparr>)"
    "orders shop 10 = None" "orderNumbers shop = []"
    "shop\<lparr>order_docs := [(10, tea_order)]\<rparr>
     = shop\<lparr>order_docs := upsert 10 tea_order (order_docs shop)\<rparr>"
    using tea_order_consistent
    by (simp_all add: today_def totals_consistent_def total_difference_fields orders_def
          orderNumbers_def shop_def)
  with doc show ?thesis
    unfolding Order_save_Inr by simp
qed

theorem Order_save_total_invariant_witness:
  "Order_save today True 10 (tea_order\<lparr>o_orderNumber := None\<rparr>) shop
     = Inr (tea_order, shop\<lparr>order_docs := [(10, tea_order)]\<rparr>)
   \<and> total_difference (tea_order\<lparr>o_orderNumber := None\<rparr>) = Num 0
   \<and> orders (shop\<lparr>order_docs := [(10, tea_order)]\<rparr>) 10 = Some tea_order
   \<and> o_total tea_order = Num 1250
   \<and> total_difference cent_order = Num (180143985094821 / 18014398509481984)
   \<and> double_0_01 < 180143985094821 / 18014398509481984
   \<and> Order_save today False 10 cent_order shop_after
       = Inl (JsError ''Order total does not match calculated total'')
   \<and> Order_save today False 10 (tea_order\<lparr>o_total := Num 1251\<rparr>) shop_after
       = Inl (JsError ''Order total does not match calculated total'')"
proof -
  have d: "total_difference (tea_order\<lparr>o_orderNumber := None\<rparr>) = Num 0"
    "total_difference cent_order = Num (180143985094821 / 18014398509481984)"
    "total_difference (tea_order\<lparr>o_total := Num 1251\<rparr>) = Num 1"
    by code_simp+
  have above: "double_0_01 < 180143985094821 / 18014398509481984"
    by (simp add: double_0_01_def)
  have bad: "js_gt (total_difference cent_order) (Num double_0_01)"
    "js_gt (total_difference (tea_order\<lparr>o_total := Num 1251\<rparr>)) (Num double_0_01)"
    using above by (simp_all add: d double_0_01_def)
  have valid: "order_validators today cent_order"
    "order_validators today (tea_order\<lparr>o_total := Num 1251\<rparr>)"
    by (simp_all add: today_def)
  have total: "o_total (tea_order\<lparr>o_orderNumber := None\<rparr>) = Num 1250"
    by (simp add: tea_order_def)
  note a = Order_save_total_invariant
      [where e = today and isNew = True and oid = 10 and ord = "tea_order\<lparr>o_orderNumber := None\<rparr>"
         and st = shop and doc = tea_order and st' = "shop\<lparr>order_docs := [(10, tea_order)]\<rparr>"
         and bad = cent_order and ?e2.0 = today and ?isNew2.0 = False and ?oid2.0 = 10
         and ?st2.0 = shop_after]
  note b = Order_save_total_invariant
      [where e = today and isNew = True and oid = 10 and ord = "tea_order\<lparr>o_orderNumber := None\<rparr>"
         and st = shop and doc = tea_order and st' = "shop\<lparr>order_docs := [(10, tea_order)]\<rparr>"
         and bad = "tea_order\<lparr>o_total := Num 1251\<rparr>" and ?e2.0 = today and ?isNew2.0 = False
         and ?oid2.0 = 10 and ?st2.0 = shop_after]
  from a shop_first_save total
  have "orders (shop\<lparr>order_docs := [(10, tea_order)]\<rparr>) 10 = Some tea_order"
    "o_total tea_order = Num 1250"
    by simp_all
  moreover from a bad(1) valid(1)
  have "Order_save today False 10 cent_order shop_after
        = Inl (JsError ''Order total does not match calculated total'')"
    by blast
  moreover from b bad(2) valid(2)
  have "Order_save today False 10 (tea_order\<lparr>o_total := Num 1251\<rparr>) shop_after
        = Inl (JsError ''Order total does not match calculated total'')"
    by blast
  ultimately show ?thesis
    using shop_first_save d(1,2) above by blast
qed

section \<open>Cancelling an order\<close>

lemma inc_quantity_apply:
  "inc_quantity pid d ps x
   = (if x = pid then map_option (\<lambda>p. p\<lparr>p_quantity := p_quantity p + d\<rparr>) (ps x) else ps x)"
  by (simp add: inc_quantity_def split: option.splits)

lemma restore_quantities_apply:
  "restore_quantities its ps pid
   = map_option (\<lambda>p. p\<lparr>p_quantity := p_quantity p + ordered_quantity its pid\<rparr>) (ps pid)"
proof (induction its arbitrary: ps)
  case Nil
  then show ?case by (simp add: ordered_quantity_def option.map_ident)
next
  case (Cons it its)
  show ?case
    by (cases "ps pid")
       (auto simp: Cons.IH inc_quantity_apply ordered_quantity_def add.assoc)
qed

lemma totals_consistent_fields:
  "totals_consistent (ord\<lparr>o_status := s\<rparr>) = totals_consistent ord"
  "totals_consistent (ord\<lparr>o_paymentStatus := ps\<rparr>) = totals_consistent ord"
  "totals_consistent (ord\<lparr>o_paymentMethod := m\<rparr>) = totals_consistent ord"
  by (simp_all add: totals_consistent_def total_difference_def)

lemma cancelOrder_Inr:
  assumes "cancelOrder e st u oid = (Inr ord', st')"
  shows "\<exists>ord. Order_findOne st oid u = Some ord
           \<and> (o_status ord = Pending \<or> o_status ord = Confirmed)
           \<and> ord' = ord\<lparr>o_status := Cancelled, o_paymentStatus := PaymentRefunded\<rparr>
           \<and> st' = st\<lparr>products := restore_quantities (o_items ord) (products st),
                        order_docs := upsert oid ord' (order_docs st)\<rparr>"
  using assms
  by (auto simp: cancelOrder_def Let_def Order_save_update
           split: option.splits if_splits sum.splits prod.splits)

lemma cancelOrder_refused:
  assumes "Order_findOne st oid u = Some ord"
      and "o_status ord \<noteq> Pending" and "o_status ord \<noteq> Confirmed"
  shows "cancelOrder e st u oid = (Inl (AppError ''Order cannot be cancelled at this stage'' 400), st)"
  using assms by (simp add: cancelOrder_def)

lemma cancelOrder_accepted:
  assumes "Order_findOne st oid u = Some ord"
      and "o_status ord = Pending \<or> o_status ord = Confirmed"
      and "order_validators e (ord\<lparr>o_status := Cancelled, o_paymentStatus := PaymentRefunded\<rparr>)"
      and "totals_consistent ord"
  shows "cancelOrder e st u oid
         = (Inr (ord\<lparr>o_status := Cancelled, o_paymentStatus := PaymentRefunded\<rparr>),
            st\<lparr>products := restore_quantities (o_items ord) (products st),
                order_docs := upsert oid (ord\<lparr>o_status := Cancelled, o_paymentStatus := PaymentRefunded\<rparr>)
                                (order_docs st)\<rparr>)"
proof -
  let ?ord' = "ord\<lparr>o_status := Cancelled, o_paymentStatus := PaymentRefunded\<rparr>"
  let ?st1 = "st\<lparr>products := restore_quantities (o_items ord) (products st)\<rparr>"
  have "totals_consistent ?ord'" using assms(4) by (simp add: totals_consistent_fields)
  with assms(3)
  have "Order_save e False oid ?ord' ?st1
        = Inr (?ord', ?st1\<lparr>order_docs := upsert oid ?ord' (order_docs ?st1)\<rparr>)"
    by (simp add: Order_save_update)
  with assms(1,2) show ?thesis
    by (auto simp: cancelOrder_def Let_def)
qed

text \<open>
  C4: when \<open>cancelOrder\<close> succeeds, the order was pending or confirmed, it is stored
  with status cancelled and payment status refunded, every product's quantity on hand
  has grown by exactly the quantity the order's lines hold of it, and any further
  \<open>cancelOrder\<close> of that order fails with status 400 and leaves the store, hence the
  quantities, as they are. An order in any other status (shipped, say) is refused
  with \<open>Order cannot be cancelled at this stage\<close>, store unchanged. A pending or
  confirmed order with consistent totals that the field validators accept is cancelled.
\<close>

theorem cancelOrder_contract:
  "(cancelOrder e st u oid = (Inr ord', st') \<longrightarrow>
      (\<exists>ord. Order_findOne st oid u = Some ord
         \<and> (o_status ord = Pending \<or> o_status ord = Confirmed)
         \<and> ord' = ord\<lparr>o_status := Cancelled, o_paymentStatus := PaymentRefunded\<rparr>
         \<and> orders st' oid = Some ord'
         \<and> (\<forall>pid. products st' pid
               = map_option (\<lambda>p. p\<lparr>p_quantity := p_quantity p + ordered_quantity (o_items ord) pid\<rparr>)
                   (products st pid))
         \<and> (\<forall>e'. cancelOrder e' st' u oid
               = (Inl (AppError ''Order cannot be cancelled at this stage'' 400), st'))))
   \<and> (Order_findOne sa oa ua = Some orda \<and> o_status orda \<noteq> Pending \<and> o_status orda \<noteq> Confirmed
      \<longrightarrow> cancelOrder ea sa ua oa
          = (Inl (AppError ''Order cannot be cancelled at this stage'' 400), sa))
   \<and> (Order_findOne sb ob ub = Some ordb \<and> (o_status ordb = Pending \<or> o_status ordb = Confirmed)
       \<and> order_validators eb (ordb\<lparr>o_status := Cancelled, o_paymentStatus := PaymentRefunded\<rparr>)
       \<and> totals_consistent ordb
      \<longrightarrow> (\<exists>ordb' sb'. cancelOrder eb sb ub ob = (Inr ordb', sb')))"
proof (intro conjI impI)
  assume run: "cancelOrder e st u oid = (Inr ord', st')"
  from cancelOrder_Inr[OF run] obtain ord where
    o: "Order_findOne st oid u = Some ord"
       "o_status ord = Pending \<or> o_status ord = Confirmed"
       "ord' = ord\<lparr>o_status := Cancelled, o_paymentStatus := PaymentRefunded\<rparr>"
       "st' = st\<lparr>products := restore_quantities (o_items ord) (products st),
                  order_docs := upsert oid ord' (order_docs st)\<rparr>"
    by blast
  have stored: "orders st' oid = Some ord'"
    using o(4) by (simp add: orders_def map_of_upsert)
  have restored: "\<forall>pid. products st' pid
       = map_option (\<lambda>p. p\<lparr>p_quantity := p_quantity p + ordered_quantity (o_items ord) pid\<rparr>)
           (products st pid)"
    using o(4) by (simp add: restore_quantities_apply)
  have user: "o_user ord = u"
    using o(1) by (auto simp: Order_findOne_def split: option.splits if_splits)
  have found: "Order_findOne st' oid u = Some ord'"
    using stored user o(3) by (simp add: Order_findOne_def)
  have again: "\<forall>e'. cancelOrder e' st' u oid
       = (Inl (AppError ''Order cannot be cancelled at this stage'' 400), st')"
    using cancelOrder_refused[OF found] o(3) by simp
  from o(1,2,3) stored restored again
  show "\<exists>ord. Order_findOne st oid u = Some ord
         \<and> (o_status ord = Pending \<or> o_status ord = Confirmed)
         \<and> ord' = ord\<lparr>o_status := Cancelled, o_paymentStatus := PaymentRefunded\<rparr>
         \<and> orders st' oid = Some ord'
         \<and> (\<forall>pid. products st' pid
               = map_option (\<lambda>p. p\<lparr>p_quantity := p_quantity p + ordered_quantity (o_items ord) pid\<rparr>)
                   (products st pid))
         \<and> (\<forall>e'. cancelOrder e' st' u oid
               = (Inl (AppError ''Order cannot be cancelled at this stage'' 400), st'))"
    by blast
next
  assume "Order_findOne sa oa ua = Some orda \<and> o_status orda \<noteq> Pending \<and> o_status orda \<noteq> Confirmed"
  then show "cancelOrder ea sa ua oa
          = (Inl (AppError ''Order cannot be cancelled at this stage'' 400), sa)"
    using cancelOrder_refused by blast
next
  assume "Order_findOne sb ob ub = Some ordb \<and> (o_status ordb = Pending \<or> o_status ordb = Confirmed)
       \<and> order_validators eb (ordb\<lparr>o_status := Cancelled, o_paymentStatus := PaymentRefunded\<rparr>)
       \<and> totals_consistent ordb"
  then show "\<exists>ordb' sb'. cancelOrder eb sb ub ob = (Inr ordb', sb')"
    using cancelOrder_accepted by blast
qed

lemma shop_after_found: "Order_findOne shop_after 10 1 = Some tea_order"
  by (simp add: Order_findOne_def orders_def shop_after_def tea_order_def)

lemma shop_after_cancel:
  "cancelOrder today shop_after 1 10
   = (Inr (tea_order\<lparr>o_status := Cancelled, o_paymentStatus := PaymentRefunded\<rparr>),
      shop_after\<lparr>products := [7 \<mapsto> tea],
                 order_docs := [(10, tea_order\<lparr>o_status := Cancelled,
                                               o_paymentStatus := PaymentRefunded\<rparr>)]\<rparr>)"
proof -
  have "o_status tea_order = Pending \<or> o_status tea_order = Confirmed"
    "order_validators today (tea_order\<lparr>o_status := Cancelled, o_paymentStatus := PaymentRefunded\<rparr>)"
    by (simp_all add: tea_order_def today_def)
  from cancelOrder_accepted [OF shop_after_found this tea_order_consistent]
  have "cancelOrder today shop_after 1 10
        = (Inr (tea_order\<lparr>o_status := Cancelled, o_paymentStatus := PaymentRefunded\<rparr>),
           shop_after\<lparr>products := restore_quantities (o_items tea_order) (products shop_after),
             order_docs := upsert 10 (tea_order\<lparr>o_status := Cancelled,
                                                o_paymentStatus := PaymentRefunded\<rparr>)
                             (order_docs shop_after)\<rparr>)" .
  also have "shop_after\<lparr>products := restore_quantities (o_items tea_order) (products shop_after),
             order_docs := upsert 10 (tea_order\<lparr>o_status := Cancelled,
                                                o_paymentStatus := PaymentRefunded\<rparr>)
                             (order_docs shop_after)\<rparr>
      = shop_after\<lparr>products := [7 \<mapsto> tea],
                 order_docs := [(10, tea_order\<lparr>o_status := Cancelled,
                                               o_paymentStatus := PaymentRefunded\<rparr>)]\<rparr>"
    by (simp add: shop_after_def tea_order_def tea_def inc_quantity_def)
  finally show ?thesis .
qed

theorem cancelOrder_contract_witness:
  "cancelOrder today shop_after 1 10
     = (Inr (tea_order\<lparr>o_status := Cancelled, o_paymentStatus := PaymentRefunded\<rparr>),
        shop_after\<lparr>products := [7 \<mapsto> tea],
                   order_docs := [(10, tea_order\<lparr>o_status := Cancelled,
                                                 o_paymentStatus := PaymentRefunded\<rparr>)]\<rparr>)
   \<and> (\<forall>e'. cancelOrder e'
              (shop_after\<lparr>products := [7 \<mapsto> tea],
                 order_docs := [(10, tea_order\<lparr>o_status := Cancelled,
                                               o_paymentStatus := PaymentRefunded\<rparr>)]\<rparr>)
              1 10
         = (Inl (AppError ''Order cannot be cancelled at this stage'' 400),
            shop_after\<lparr>products := [7 \<mapsto> tea],
                 order_docs := [(10, tea_order\<lparr>o_status := Cancelled,
                                               o_paymentStatus := PaymentRefunded\<rparr>)]\<rparr>))
   \<and> cancelOrder today shop_shipped 1 10
       = (Inl (AppError ''Order cannot be cancelled at this stage'' 400), shop_shipped)
   \<and> (\<exists>ord' st'. cancelOrder today shop_after 1 10 = (Inr ord', st'))"
proof -
  have found: "Order_findOne shop_shipped 10 1 = Some (tea_order\<lparr>o_status := Shipped\<rparr>)"
    "o_status (tea_order\<lparr>o_status := Shipped\<rparr>) \<noteq> Pending"
    "o_status (tea_order\<lparr>o_status := Shipped\<rparr>) \<noteq> Confirmed"
    by (simp_all add: Order_findOne_def orders_def shop_shipped_def shop_after_def tea_order_def)
  have pending:
    "o_status tea_order = Pending \<or> o_status tea_order = Confirmed"
    "order_validators today (tea_order\<lparr>o_status := Cancelled, o_paymentStatus := PaymentRefunded\<rparr>)"
    by (simp_all add: tea_order_def today_def)
  note c = cancelOrder_contract
      [where e = today and st = shop_after and u = 1 and oid = 10
         and ord' = "tea_order\<lparr>o_status := Cancelled, o_paymentStatus := PaymentRefunded\<rparr>"
         and st' = "shop_after\<lparr>products := [7 \<mapsto> tea],
                 order_docs := [(10, tea_order\<lparr>o_status := Cancelled,
                                               o_paymentStatus := PaymentRefunded\<rparr>)]\<rparr>"
         and ea = today and sa = shop_shipped and ua = 1 and oa = 10
         and orda = "tea_order\<lparr>o_status := Shipped\<rparr>"
         and eb = today and sb = shop_after and ub = 1 and ob = 10 and ordb = tea_order]
  from c shop_after_cancel found shop_after_found pending tea_order_consistent
  show ?thesis by blast
qed

section \<open>Payment\<close>

lemma Order_save_accepted:
  assumes "order_validators e ord" and "totals_consistent ord"
  shows "Order_save e False oid ord st
         = Inr (ord, st\<lparr>order_docs := upsert oid ord (order_docs st)\<rparr>)"
  using assms by (simp add: Order_save_update)

text \<open>
  The two guards, in the order of the code, and what a successful payment stores: the
  order with payment status paid, the method of the request, and status confirmed if
  it was pending. Nothing else of the order changes.
\<close>

lemma processPayment_guards:
  assumes "Order_findOne st oid u = Some ord" and "pm \<noteq> []"
  shows "o_paymentStatus ord = Paid
           \<Longrightarrow> processPayment e st u (Some oid) (Some pm) d
               = (Inl (AppError ''Order has already been paid'' 400), st)"
    and "o_paymentStatus ord \<noteq> Paid \<Longrightarrow> o_status ord = Cancelled
           \<Longrightarrow> processPayment e st u (Some oid) (Some pm) d
               = (Inl (AppError ''Cannot process payment for cancelled order'' 400), st)"
  using assms by (simp_all add: processPayment_def)

lemma processPayment_Inr:
  assumes "processPayment e st u (Some oid) (Some pm) d = (Inr res, st')" and "r_success res"
  shows "\<exists>ord. Order_findOne st oid u = Some ord
           \<and> o_paymentStatus ord \<noteq> Paid \<and> o_status ord \<noteq> Cancelled
           \<and> st' = st\<lparr>order_docs := upsert oid
                       (ord\<lparr>o_paymentStatus := Paid, o_paymentMethod := pm,
                            o_status := (if o_status ord = Pending then Confirmed else o_status ord)\<rparr>)
                       (order_docs st)\<rparr>"
  using assms
  by (auto simp: processPayment_def Let_def Order_save_update
           split: option.splits if_splits sum.splits prod.splits)

lemma today_fields:
  "now today = 1000" "new_id today = 10" "order_validators today ord" "random today = Num (1 / 2)"
  "now (today\<lparr>now := t\<rparr>) = t" "order_validators (today\<lparr>now := t\<rparr>) ord"
  by (simp_all add: today_def)

lemma tea_order_fields:
  "o_user tea_order = 1" "o_status tea_order = Pending" "o_paymentStatus tea_order = PaymentPending"
  "o_total tea_order = Num 1250" "o_deliveredAt tea_order = None"
  by (simp_all add: tea_order_def)

lemma shop_after_docs:
  "order_docs shop_after = [(10, tea_order)]"
  "order_docs shop_delivered = [(10, delivered_order)]"
  by (simp_all add: shop_after_def shop_delivered_def)

text \<open>
  C6. The guards hold as specified, and a successful payment stores payment status
  paid, the method, and status confirmed from pending. The transaction id is not
  recorded: \<open>OrderSchema\<close> declares no path for it. A bank transfer for the pending
  order 10 is answered with the transaction id \<open>BANK_1000\<close>; the stored order has the
  new payment status, method and status and nothing else, and \<open>getPaymentStatus\<close> on
  the store that results reports no transaction id.
\<close>

theorem processPayment_does_not_record_transaction_id:
  "processPayment today shop_after 1 (Some 10) (Some ''bank_transfer'') None
   = (Inr \<lparr>r_success = True, r_transactionId = Some ''BANK_1000'',
           r_message = ''Bank transfer initiated. Please complete the transfer.''\<rparr>,
      shop_after\<lparr>order_docs := [(10, tea_order\<lparr>o_paymentStatus := Paid,
                                                o_paymentMethod := ''bank_transfer'',
                                                o_status := Confirmed\<rparr>)]\<rparr>)
   \<and> getPaymentStatus
       (shop_after\<lparr>order_docs := [(10, tea_order\<lparr>o_paymentStatus := Paid,
                                                 o_paymentMethod := ''bank_transfer'',
                                                 o_status := Confirmed\<rparr>)]\<rparr>) 1 10
     = Inr \<lparr>ps_status = Paid, ps_method = ''bank_transfer'', ps_transactionId = None,
            ps_amount = Num 1250, ps_orderStatus = Confirmed\<rparr>"
  by (simp add: processPayment_def getPaymentStatus_def simulate_def Let_def
        Order_save_accepted totals_consistent_fields tea_order_consistent today_fields
        tea_order_fields shop_after_docs show_int_small Order_findOne_def orders_def)

text \<open>
  In the credit card case the payment result never has a transaction id, and its
  message is always \<open>Payment failed\<close>, whatever the draw. A draw that fails returns
  the failure result and leaves the store, and so the order, as it was.
\<close>

lemma simulate_credit_card:
  assumes "simulate e ord ''credit_card'' d = Inr res"
  shows "r_transactionId res = None \<and> r_message res = ''Payment failed''
         \<and> r_success res = js_gt (random e) (round64 (1 / 10))"
  using assms
  by (auto simp: simulate_def optional_success_def Let_def split: option.splits if_splits)

lemma processPayment_credit_card_declined:
  assumes "Order_findOne st oid u = Some ord" and "o_paymentStatus ord \<noteq> Paid"
      and "o_status ord \<noteq> Cancelled"
      and "pd_cardNumber d \<noteq> []" and "pd_cvv d \<noteq> []"
      and "\<not> js_gt (random e) (round64 (1 / 10))"
  shows "processPayment e st u (Some oid) (Some ''credit_card'') (Some d)
         = (Inr \<lparr>r_success = False, r_transactionId = None, r_message = ''Payment failed''\<rparr>, st)"
  using assms
  by (simp add: processPayment_def simulate_def optional_success_def Let_def)

text \<open>
  C7 on a concrete request: order 10 of user 1 is pending and unpaid, the method is
  \<open>credit_card\<close> with card number and CVV, and the draw 0.5 is a success. The payment
  succeeds, the order is stored paid and confirmed, and the transaction id of the
  result is null.
\<close>

theorem processPayment_credit_card_success_has_no_transaction_id:
  "processPayment today shop_after 1 (Some 10) (Some ''credit_card'') (Some card)
   = (Inr \<lparr>r_success = True, r_transactionId = None, r_message = ''Payment failed''\<rparr>,
      shop_after\<lparr>order_docs := [(10, tea_order\<lparr>o_paymentStatus := Paid,
                                                o_paymentMethod := ''credit_card'',
                                                o_status := Confirmed\<rparr>)]\<rparr>)"
proof -
  have draw: "js_gt (Num (1 / 2)) (round64 (1 / 10))"
    by code_simp
  show ?thesis
    by (simp add: processPayment_def simulate_def optional_success_def Let_def
          Order_save_accepted totals_consistent_fields tea_order_consistent today_fields
          tea_order_fields shop_after_docs card_def draw Order_findOne_def orders_def)
qed

section \<open>Refund\<close>

lemma delivered_order_fields:
  "o_user delivered_order = 1" "o_status delivered_order = Delivered"
  "o_paymentStatus delivered_order = Paid" "o_total delivered_order = Num 1250"
  "o_deliveredAt delivered_order = Some 1000"
  "totals_consistent delivered_order"
  using tea_order_consistent
  by (simp_all add: delivered_order_def tea_order_fields totals_consistent_fields
        totals_consistent_def total_difference_def)

lemma shop_delivered_found: "Order_findOne shop_delivered 10 1 = Some delivered_order"
  by (simp add: Order_findOne_def orders_def shop_after_docs delivered_order_fields
        shop_delivered_def)

text \<open>
  What holds of \<open>processRefund\<close>: an order that is not paid is refused; a delivered
  order is refused once the request comes more than seven days after the delivery;
  and a refund that goes through stores the order with payment status refunded and
  status refunded, and nothing else of the order changes.
\<close>

lemma processRefund_guards:
  assumes "Order_findOne st oid u = Some ord"
  shows "o_paymentStatus ord \<noteq> Paid
           \<Longrightarrow> processRefund e st u oid reason
               = (Inl (AppError ''Order has not been paid yet'' 400), st)"
    and "o_paymentStatus ord = Paid \<Longrightarrow> o_status ord = Delivered
           \<Longrightarrow> o_deliveredAt ord = Some t \<Longrightarrow> now e > t + 7 * day
           \<Longrightarrow> processRefund e st u oid reason
               = (Inl (AppError ''Refund period has expired (7 days from delivery)'' 400), st)"
  using assms by (simp_all add: processRefund_def refundDeadline_def day_def)

lemma processRefund_Inr:
  assumes "processRefund e st u oid reason = (Inr res, st')"
  shows "\<exists>ord. Order_findOne st oid u = Some ord \<and> o_paymentStatus ord = Paid
           \<and> res = \<lparr>rf_amount = o_total ord, rf_transactionId = None,
                     rf_refundedAt = now e, rf_reason = reason\<rparr>
           \<and> st' = st\<lparr>order_docs := upsert oid
                       (ord\<lparr>o_paymentStatus := PaymentRefunded, o_status := Refunded\<rparr>)
                       (order_docs st)\<rparr>"
  using assms
  by (auto simp: processRefund_def Let_def Order_save_update
           split: option.splits if_splits sum.splits prod.splits)

lemma processRefund_eight_days:
  "processRefund (today\<lparr>now := 1000 + 8 * day\<rparr>) shop_delivered 1 10 reason
   = (Inl (AppError ''Refund period has expired (7 days from delivery)'' 400), shop_delivered)"
  using processRefund_guards(2) [OF shop_delivered_found, of 1000 "today\<lparr>now := 1000 + 8 * day\<rparr>" reason]
  by (simp add: delivered_order_fields today_fields day_def)

text \<open>
  C8. The guards and the seven-day window hold as specified, and a refund stores
  payment status refunded and status refunded. The reason and the timestamp are not
  recorded: \<open>OrderSchema\<close> declares no path for either. A refund of order 10, six days
  after its delivery and with the reason \<open>damaged\<close>, is answered with that reason and
  the time of the request; the stored order has the two new statuses and nothing else,
  the very order that a refund without a reason, a day earlier, stores.
\<close>

theorem processRefund_does_not_record_reason_or_time:
  "processRefund (today\<lparr>now := 1000 + 6 * day\<rparr>) shop_delivered 1 10 (Some ''damaged'')
   = (Inr \<lparr>rf_amount = Num 1250, rf_transactionId = None,
           rf_refundedAt = 1000 + 6 * day, rf_reason = Some ''damaged''\<rparr>,
      shop_delivered\<lparr>order_docs := [(10, delivered_order\<lparr>o_paymentStatus := PaymentRefunded,
                                                          o_status := Refunded\<rparr>)]\<rparr>)
   \<and> processRefund (today\<lparr>now := 1000 + 5 * day\<rparr>) shop_delivered 1 10 None
   = (Inr \<lparr>rf_amount = Num 1250, rf_transactionId = None,
           rf_refundedAt = 1000 + 5 * day, rf_reason = None\<rparr>,
      shop_delivered\<lparr>order_docs := [(10, delivered_order\<lparr>o_paymentStatus := PaymentRefunded,
                                                          o_status := Refunded\<rparr>)]\<rparr>)"
  by (simp add: processRefund_def refundDeadline_def Let_def
        Order_save_accepted totals_consistent_fields delivered_order_fields today_fields
        shop_after_docs day_def Order_findOne_def orders_def)

section \<open>Product status\<close>

lemma ProductSchema_status_enum_set:
  "set ProductSchema_status_enum = {''active'', ''revoked'', ''pending'', ''draft''}"
  by (simp add: ProductSchema_status_enum_def)

text \<open>
  C9: a product that is saved has a status in the set \<open>active\<close>, \<open>revoked\<close>, \<open>pending\<close>,
  \<open>draft\<close>, \<open>suspended\<close>, so that a store all of whose products have such a status keeps
  that property under a save; and a product with a status outside this set is rejected
  by the save.
\<close>

theorem Product_save_status:
  "(Product_save pid p st = Inr st'
      \<longrightarrow> p_status p \<in> {''active'', ''revoked'', ''pending'', ''draft'', ''suspended''}
          \<and> products st' pid = Some p
          \<and> ((\<forall>k r. products st k = Some r
                 \<longrightarrow> p_status r \<in> {''active'', ''revoked'', ''pending'', ''draft'', ''suspended''})
               \<longrightarrow> (\<forall>k r. products st' k = Some r
                 \<longrightarrow> p_status r \<in> {''active'', ''revoked'', ''pending'', ''draft'', ''suspended''})))
   \<and> (p_status q \<notin> {''active'', ''revoked'', ''pending'', ''draft'', ''suspended''}
      \<longrightarrow> (\<exists>err. Product_save qid q sq = Inl err))"
proof (intro conjI impI)
  assume a: "Product_save pid p st = Inr st'"
  then have valid: "ProductSchema_validate p = None"
    and st': "st' = st\<lparr>products := (products st)(pid \<mapsto> p)\<rparr>"
    by (auto simp: Product_save_def split: option.splits)
  from valid have enum: "p_status p \<in> {''active'', ''revoked'', ''pending'', ''draft''}"
    by (simp add: ProductSchema_validate_def ProductSchema_status_enum_set split: if_splits)
  then show status: "p_status p \<in> {''active'', ''revoked'', ''pending'', ''draft'', ''suspended''}"
    by blast
  from st' show "products st' pid = Some p"
    by simp
  assume "\<forall>k r. products st k = Some r
            \<longrightarrow> p_status r \<in> {''active'', ''revoked'', ''pending'', ''draft'', ''suspended''}"
  with status st'
  show "\<forall>k r. products st' k = Some r
          \<longrightarrow> p_status r \<in> {''active'', ''revoked'', ''pending'', ''draft'', ''suspended''}"
    by (auto split: if_splits)
next
  assume "p_status q \<notin> {''active'', ''revoked'', ''pending'', ''draft'', ''suspended''}"
  then have "p_status q \<notin> set ProductSchema_status_enum"
    by (simp add: ProductSchema_status_enum_set)
  then show "\<exists>err. Product_save qid q sq = Inl err"
    by (simp add: Product_save_def ProductSchema_validate_def)
qed

theorem Product_save_status_witness:
  "Product_save 8 (tea\<lparr>p_status := ''draft''\<rparr>) shop
     = Inr (shop\<lparr>products := [7 \<mapsto> tea, 8 \<mapsto> tea\<lparr>p_status := ''draft''\<rparr>]\<rparr>)
   \<and> p_status (tea\<lparr>p_status := ''draft''\<rparr>)
       \<in> {''active'', ''revoked'', ''pending'', ''draft'', ''suspended''}
   \<and> (\<exists>err. Product_save 8 (tea\<lparr>p_status := ''archived''\<rparr>) shop = Inl err)"
proof -
  have zero: "js_ge (Num 500) (Num 0)"
    by (simp add: js_ge_def)
  have ok: "Product_save 8 (tea\<lparr>p_status := ''draft''\<rparr>) shop
            = Inr (shop\<lparr>products := [7 \<mapsto> tea, 8 \<mapsto> tea\<lparr>p_status := ''draft''\<rparr>]\<rparr>)"
    by (simp add: Product_save_def ProductSchema_validate_def ProductSchema_status_enum_def
          tea_def shop_def zero)
  have bad: "p_status (tea\<lparr>p_status := ''archived''\<rparr>)
             \<notin> {''active'', ''revoked'', ''pending'', ''draft'', ''suspended''}"
    by simp
  note c = Product_save_status
      [where pid = 8 and p = "tea\<lparr>p_status := ''draft''\<rparr>" and st = shop
         and st' = "shop\<lparr>products := [7 \<mapsto> tea, 8 \<mapsto> tea\<lparr>p_status := ''draft''\<rparr>]\<rparr>"
         and q = "tea\<lparr>p_status := ''archived''\<rparr>" and qid = 8 and sq = shop]
  from c ok bad show ?thesis by blast
qed

text \<open>
  The enumeration of the schema is smaller than that set: it has no \<open>suspended\<close>, and a
  product with that status is rejected as well.
\<close>

lemma Product_save_suspended:
  "Product_save 8 (tea\<lparr>p_status := ''suspended''\<rparr>) shop = Inl (ValidationError ''status'')"
  by (simp add: Product_save_def ProductSchema_validate_def ProductSchema_status_enum_def
        tea_def js_ge_def)

end
